theory Spec2Isabelle
  imports Main
begin

section \<open>Python values, exceptions and built-ins\<close>

text \<open>
  The taxonomy analyzer (\<^verbatim>\<open>src/modules/taxonomy_analyzer.py\<close>) works on untyped
  dictionaries: repository records, web results, and the JSON documents the model
  answers with. A value is one of Python's JSON-shaped values. A dictionary is an
  association list with distinct keys in insertion order, since the summary iterates
  \<^verbatim>\<open>web_data.items()\<close> in that order. A float is carried as text (what
  Python prints for it, or the literal of a parsed number): no operation of the
  analyzer computes with floats.

  A \<open>char\<close> stands for one character of a Python string. The model is exact on ASCII
  text; a character beyond ASCII is carried as the bytes of its UTF-8 encoding, so a
  slice of such text counts bytes where Python counts characters.
\<close>

datatype pyval =
    PNone
  | PBool bool
  | PInt int
  | PFloat string
  | PStr string
  | PList "pyval list"
  | PDict "(string \<times> pyval) list"

type_synonym pydict = "(string \<times> pyval) list"

text \<open>
  An exception is its class and the text \<^verbatim>\<open>str(e)\<close> gives. Every class here
  derives from \<^verbatim>\<open>Exception\<close>; \<open>APIError\<close> stands for whatever the OpenRouter
  client raises (timeout, authentication, rate limit, connection).
\<close>

datatype exn_class =
    JSONDecodeError
  | KeyError
  | TypeError
  | AttributeError
  | ValueError
  | IndexError
  | RecursionError
  | UnboundLocalError
  | APIError

datatype exn = Exn (exn_class: exn_class) (exn_str: string)

definition nl :: string where
  "nl = [CHR 0x0A]"

definition quoted :: "string \<Rightarrow> string" where
  "quoted s = [CHR 0x27] @ s @ [CHR 0x27]"

definition type_name :: "pyval \<Rightarrow> string" where
  "type_name v =
     (case v of
        PNone \<Rightarrow> ''NoneType''
      | PBool _ \<Rightarrow> ''bool''
      | PInt _ \<Rightarrow> ''int''
      | PFloat _ \<Rightarrow> ''float''
      | PStr _ \<Rightarrow> ''str''
      | PList _ \<Rightarrow> ''list''
      | PDict _ \<Rightarrow> ''dict'')"

text \<open>\<^verbatim>\<open>sep.join(parts)\<close> on a list of strings.\<close>

fun join :: "string \<Rightarrow> string list \<Rightarrow> string" where
  "join sep [] = []"
| "join sep [x] = x"
| "join sep (x # y # ys) = x @ sep @ join sep (y # ys)"

text \<open>\<^verbatim>\<open>str(n)\<close> for an integer: decimal digits, a minus sign when negative.\<close>

definition digit_char :: "nat \<Rightarrow> char" where
  "digit_char d = ''0123456789abcdef'' ! d"

fun str_nat :: "nat \<Rightarrow> string" where
  "str_nat n = (if n < 10 then [digit_char n] else str_nat (n div 10) @ [digit_char (n mod 10)])"

declare str_nat.simps [simp del]

definition str_int :: "int \<Rightarrow> string" where
  "str_int i = (if i < 0 then CHR ''-'' # str_nat (nat (- i)) else str_nat (nat i))"

text \<open>
  \<^verbatim>\<open>repr(s)\<close> for a string: single quotes, unless the string holds a single quote
  and no double quote; the quote and the backslash escaped, tab, newline and carriage
  return by letter, the other control characters as \<^verbatim>\<open>\xNN\<close>.
\<close>

definition repr_char :: "char \<Rightarrow> char \<Rightarrow> string" where
  "repr_char q c =
     (if c = q \<or> c = CHR 0x5C then [CHR 0x5C, c]
      else if c = CHR 0x09 then [CHR 0x5C, CHR ''t'']
      else if c = CHR 0x0A then [CHR 0x5C, CHR ''n'']
      else if c = CHR 0x0D then [CHR 0x5C, CHR ''r'']
      else if (of_char c :: nat) < 32 \<or> c = CHR 0x7F
        then [CHR 0x5C, CHR ''x'', digit_char (of_char c div 16), digit_char (of_char c mod 16)]
      else [c])"

definition repr_str :: "string \<Rightarrow> string" where
  "repr_str s =
     (let q = (if CHR 0x27 \<in> set s \<and> CHR 0x22 \<notin> set s then CHR 0x22 else CHR 0x27)
      in q # concat (map (repr_char q) s) @ [q])"

fun py_repr :: "pyval \<Rightarrow> string" where
  "py_repr PNone = ''None''"
| "py_repr (PBool b) = (if b then ''True'' else ''False'')"
| "py_repr (PInt i) = str_int i"
| "py_repr (PFloat r) = r"
| "py_repr (PStr s) = repr_str s"
| "py_repr (PList vs) = ''['' @ join '', '' (map py_repr vs) @ '']''"
| "py_repr (PDict kvs) =
     ''{'' @ join '', '' (map (\<lambda>(k, v). repr_str k @ '': '' @ py_repr v) kvs) @ ''}''"

text \<open>
  \<^verbatim>\<open>str(v)\<close>, which is what a replacement field \<^verbatim>\<open>{v}\<close> of an f-string puts into
  the text: the string itself, and the \<^verbatim>\<open>repr\<close> of every other value.
\<close>

definition py_str :: "pyval \<Rightarrow> string" where
  "py_str v = (case v of PStr s \<Rightarrow> s | _ \<Rightarrow> py_repr v)"

text \<open>
  \<^verbatim>\<open>d[key]\<close>, \<^verbatim>\<open>key in d\<close>, \<^verbatim>\<open>d.get(key, default)\<close> and \<^verbatim>\<open>d[key] = v\<close> on a
  dictionary. A missing key raises \<^verbatim>\<open>KeyError(key)\<close>, whose text is the key's
  \<^verbatim>\<open>repr\<close>. An assignment replaces the value of a key in place and puts a new key
  last.
\<close>

definition getitem :: "pydict \<Rightarrow> string \<Rightarrow> exn + pyval" where
  "getitem d k =
     (case map_of d k of
        None \<Rightarrow> Inl (Exn KeyError (repr_str k))
      | Some v \<Rightarrow> Inr v)"

definition contains :: "pydict \<Rightarrow> string \<Rightarrow> bool" where
  "contains d k = (map_of d k \<noteq> None)"

definition dict_get :: "pydict \<Rightarrow> string \<Rightarrow> pyval \<Rightarrow> pyval" where
  "dict_get d k dflt = (case map_of d k of None \<Rightarrow> dflt | Some v \<Rightarrow> v)"

fun setitem :: "pydict \<Rightarrow> string \<Rightarrow> pyval \<Rightarrow> pydict" where
  "setitem [] k v = [(k, v)]"
| "setitem ((k', v') # d) k v = (if k' = k then (k, v) # d else (k', v') # setitem d k v)"

definition keys :: "pydict \<Rightarrow> string list" where
  "keys d = map fst d"

text \<open>
  \<^verbatim>\<open>v.get(key, default)\<close> on any value: only a dictionary has the method.
\<close>

definition py_get :: "pyval \<Rightarrow> string \<Rightarrow> pyval \<Rightarrow> exn + pyval" where
  "py_get v k dflt =
     (case v of
        PDict d \<Rightarrow> Inr (dict_get d k dflt)
      | _ \<Rightarrow> Inl (Exn AttributeError
                 (quoted (type_name v) @ '' object has no attribute '' @ quoted ''get'')))"

text \<open>\<^verbatim>\<open>len(v)\<close>: strings, lists and dictionaries have a length.\<close>

definition py_len :: "pyval \<Rightarrow> exn + nat" where
  "py_len v =
     (case v of
        PStr s \<Rightarrow> Inr (length s)
      | PList vs \<Rightarrow> Inr (length vs)
      | PDict d \<Rightarrow> Inr (length d)
      | _ \<Rightarrow> Inl (Exn TypeError (''object of type '' @ quoted (type_name v) @ '' has no len()'')))"

text \<open>
  The slice \<^verbatim>\<open>v[:n]\<close>: a prefix of a string or of a list. A dictionary takes the
  slice for a key it does not hold (\<^verbatim>\<open>KeyError\<close> since Python 3.12, where slices are
  hashable; \<^verbatim>\<open>TypeError\<close> before); the other values are not subscriptable.
\<close>

definition slice_to :: "nat \<Rightarrow> pyval \<Rightarrow> exn + pyval" where
  "slice_to n v =
     (case v of
        PStr s \<Rightarrow> Inr (PStr (take n s))
      | PList vs \<Rightarrow> Inr (PList (take n vs))
      | PDict d \<Rightarrow> Inl (Exn KeyError (''slice(None, '' @ str_nat n @ '', None)''))
      | _ \<Rightarrow> Inl (Exn TypeError (quoted (type_name v) @ '' object is not subscriptable'')))"

text \<open>
  \<^verbatim>\<open>sep.join(v)\<close> on any value: the items of a list must all be strings, a string is
  joined character by character, a dictionary by its keys.
\<close>

fun str_items :: "nat \<Rightarrow> pyval list \<Rightarrow> exn + string list" where
  "str_items i [] = Inr []"
| "str_items i (PStr s # vs) =
     (case str_items (Suc i) vs of Inl e \<Rightarrow> Inl e | Inr ss \<Rightarrow> Inr (s # ss))"
| "str_items i (v # vs) =
     Inl (Exn TypeError (''sequence item '' @ str_nat i @ '': expected str instance, ''
                          @ type_name v @ '' found''))"

definition py_join :: "string \<Rightarrow> pyval \<Rightarrow> exn + string" where
  "py_join sep v =
     (case v of
        PList vs \<Rightarrow> (case str_items 0 vs of Inl e \<Rightarrow> Inl e | Inr ss \<Rightarrow> Inr (join sep ss))
      | PStr s \<Rightarrow> Inr (join sep (map (\<lambda>c. [c]) s))
      | PDict d \<Rightarrow> Inr (join sep (keys d))
      | _ \<Rightarrow> Inl (Exn TypeError ''can only join an iterable''))"

text \<open>\<^verbatim>\<open>s.upper()\<close>, on ASCII letters.\<close>

definition upper_char :: "char \<Rightarrow> char" where
  "upper_char c =
     (if 97 \<le> (of_char c :: nat) \<and> (of_char c :: nat) \<le> 122
      then char_of (of_char c - 32 :: nat) else c)"

definition upper :: "string \<Rightarrow> string" where
  "upper s = map upper_char s"

text \<open>
  Statements in sequence: the second runs on the value of the first, unless the first
  raised.
\<close>

definition and_then :: "exn + 'a \<Rightarrow> ('a \<Rightarrow> exn + 'b) \<Rightarrow> exn + 'b" where
  "and_then r f = (case r of Inl e \<Rightarrow> Inl e | Inr x \<Rightarrow> f x)"

text \<open>
  A loop body that may raise, run over a list: the first exception ends the loop, as
  it does in Python.
\<close>

fun traverse :: "('a \<Rightarrow> exn + 'b) \<Rightarrow> 'a list \<Rightarrow> exn + 'b list" where
  "traverse f [] = Inr []"
| "traverse f (x # xs) =
     and_then (f x) (\<lambda>y. and_then (traverse f xs) (\<lambda>ys. Inr (y # ys)))"

section \<open>The summary builder\<close>

text \<open>
  \<^verbatim>\<open>_prepare_data_summary\<close>. The f-string of a repository reads the keys
  \<^verbatim>\<open>full_name\<close>, \<^verbatim>\<open>stars\<close>, \<^verbatim>\<open>description\<close>, \<^verbatim>\<open>topics\<close> and \<^verbatim>\<open>language\<close> in
  that order, and the first one that fails raises. The star after the count is U+2B50,
  written here as the three bytes of its UTF-8 encoding.
\<close>

definition star :: string where
  "star = [CHR 0xE2, CHR 0xAD, CHR 0x90]"

definition render_repo :: "nat \<Rightarrow> pydict \<Rightarrow> exn + string" where
  "render_repo i repo =
     and_then (getitem repo ''full_name'') (\<lambda>full_name.
     and_then (getitem repo ''stars'') (\<lambda>stars.
     and_then (getitem repo ''description'') (\<lambda>description.
     and_then (getitem repo ''topics'') (\<lambda>topics.
     and_then (slice_to 5 topics) (\<lambda>first_topics.
     and_then (py_join '', '' first_topics) (\<lambda>joined.
     and_then (getitem repo ''language'') (\<lambda>language.
       Inr (str_nat i @ ''. '' @ py_str full_name @ '' ('' @ py_str stars @ star @ '')'' @ nl
            @ ''   Description: '' @ py_str description @ nl
            @ ''   Topics: '' @ joined @ nl
            @ ''   Language: '' @ py_str language @ nl))))))))"

definition render_result :: "nat \<Rightarrow> pydict \<Rightarrow> exn + string" where
  "render_result i result =
     and_then (getitem result ''title'') (\<lambda>title.
     and_then (getitem result ''url'') (\<lambda>url.
     and_then (getitem result ''content'') (\<lambda>content.
     and_then (slice_to 200 content) (\<lambda>prefix.
       Inr (str_nat i @ ''. '' @ py_str title @ nl
            @ ''   URL: '' @ py_str url @ nl
            @ ''   Content: '' @ py_str prefix @ ''...'' @ nl)))))"

text \<open>The keys the two f-strings read.\<close>

definition repo_keys :: "string list" where
  "repo_keys = [''full_name'', ''stars'', ''description'', ''topics'', ''language'']"

definition result_keys :: "string list" where
  "result_keys = [''title'', ''url'', ''content'']"

text \<open>
  The parts one category adds: its header, then its first 15 results, numbered from 1.
\<close>

definition category_header :: "string \<Rightarrow> string" where
  "category_header category = nl @ ''=== WEB RESULTS: '' @ upper category @ '' ==='' @ nl"

definition category_parts :: "string \<times> pydict list \<Rightarrow> exn + string list" where
  "category_parts cr =
     and_then (traverse (\<lambda>(i, result). render_result i result) (enumerate 1 (take 15 (snd cr))))
       (\<lambda>parts. Inr (category_header (fst cr) # parts))"

definition prepare_data_summary ::
  "pydict list \<Rightarrow> (string \<times> pydict list) list \<Rightarrow> exn + string" where
  "prepare_data_summary github_data web_data =
     and_then (traverse (\<lambda>(i, repo). render_repo i repo) (enumerate 1 (take 30 github_data)))
       (\<lambda>repo_parts.
     and_then (traverse category_parts web_data)
       (\<lambda>web_parts.
         Inr (join nl ((''=== GITHUB REPOSITORIES ==='' @ nl) # repo_parts @ concat web_parts))))"


section \<open>The analyzer and what it calls\<close>

text \<open>
  \<^verbatim>\<open>TaxonomyAnalyzer.__init__\<close> reads two environment variables and refuses to
  build the analyzer without an API key (an unset variable and an empty one are both
  falsy). An analyzer that exists has its configuration.
\<close>

record analyzer =
  api_key :: string
  model :: string

definition init :: "(string \<Rightarrow> string option) \<Rightarrow> exn + analyzer" where
  "init getenv =
     (let key = getenv ''OPENROUTER_API_KEY'';
          model_name = (case getenv ''OR_RESEARCH_MODEL_NAME'' of
                          None \<Rightarrow> ''google/gemini-3-flash-preview''
                        | Some m \<Rightarrow> m)
      in case key of
           None \<Rightarrow> Inl (Exn ValueError ''OPENROUTER_API_KEY environment variable not set'')
         | Some k \<Rightarrow>
             if k = [] then Inl (Exn ValueError ''OPENROUTER_API_KEY environment variable not set'')
             else Inr \<lparr>api_key = k, model = model_name\<rparr>)"

text \<open>
  The analyzer calls the OpenRouter client and Python's \<^verbatim>\<open>json\<close> module. Both are
  parameters of the model, so that a theorem holds of every client and every parser:
  \<^item> \<open>create\<close> is \<^verbatim>\<open>client.chat.completions.create\<close> followed by the read of
    \<^verbatim>\<open>response.choices[0].message.content\<close>: it raises, or gives the content, which the
    client's types allow to be \<^verbatim>\<open>None\<close>;
  \<^item> \<open>loads\<close> is \<^verbatim>\<open>json.loads\<close> on a string;
  \<^item> \<open>dumps\<close> is \<^verbatim>\<open>json.dumps(v, indent=2)\<close>, which does not raise on the values of
    \<open>pyval\<close>.
  What \<^verbatim>\<open>print\<close> writes is not modelled.
\<close>

record request =
  req_model :: string
  req_messages :: "(string \<times> string) list"
  req_temperature :: string
  req_max_tokens :: nat

datatype completion = Raised exn | Content "string option"

record env =
  create :: "request \<Rightarrow> completion"
  loads :: "string \<Rightarrow> exn + pyval"
  dumps :: "pyval \<Rightarrow> string"

text \<open>\<^verbatim>\<open>json.loads(None)\<close>, the call on a content that is \<^verbatim>\<open>None\<close>.\<close>

definition loads_none :: exn where
  "loads_none = Exn TypeError ''the JSON object must be str, bytes or bytearray, not NoneType''"

section \<open>Creating the taxonomy\<close>

definition build_taxonomy_prompt :: \<open>string \<Rightarrow> string \<Rightarrow> string\<close> where
  \<open>build_taxonomy_prompt keyword data_summary =
     join nl
      [''Analyze the following data about "'' @ keyword @ ''" and create a comprehensive ecosystem taxonomy.'',
       [],
       ''DATA:'',
       data_summary,
       [],
       ''TASK:'',
       ''Create a structured taxonomy that:'',
       ''1. Identifies 5-8 main categories within this ecosystem'',
       ''2. For each category, identify 2-4 subcategories'',
       ''3. Find 3-5 representative examples (projects/tools/companies) for each category'',
       ''4. Describe the purpose and focus of each category'',
       ''5. Identify relationships between categories (e.g., "builds on", "complements", "alternative to")'',
       [],
       ''OUTPUT FORMAT (JSON):'',
       ''{'',
       ''  "ecosystem_name": "'' @ keyword @ ''",'',
       ''  "overview": "Brief 2-3 sentence overview of the ecosystem",'',
       ''  "categories": ['',
       ''    {'',
       ''      "name": "Category Name",'',
       ''      "description": "What this category focuses on",'',
       ''      "subcategories": ["Subcategory 1", "Subcategory 2"],'',
       ''      "examples": ['',
       ''        {'',
       ''          "name": "Project/Tool Name",'',
       ''          "description": "Brief description",'',
       ''          "url": "URL if available",'',
       ''          "type": "open-source|commercial|framework|library|platform"'',
       ''        }'',
       ''      ],'',
       ''      "relationships": ["Related to X", "Built on Y"]'',
       ''    }'',
       ''  ],'',
       ''  "key_trends": ["Trend 1", "Trend 2", "Trend 3"],'',
       ''  "emerging_areas": ["Area 1", "Area 2"]'',
       ''}'',
       [],
       ''Respond ONLY with valid JSON. Do not include any markdown formatting or additional text.'']\<close>

definition taxonomy_system :: string where
  "taxonomy_system = ''You are an expert at analyzing technology ecosystems and creating structured taxonomies. You excel at identifying patterns, categories, and representative examples from raw data.''"

definition taxonomy_request :: "analyzer \<Rightarrow> string \<Rightarrow> request" where
  "taxonomy_request self prompt =
     \<lparr>req_model = model self,
      req_messages = [(''system'', taxonomy_system), (''user'', prompt)],
      req_temperature = ''0.3'',
      req_max_tokens = 4000\<rparr>"

text \<open>
  The \<^verbatim>\<open>try\<close> block of \<^verbatim>\<open>create_taxonomy\<close>. A failure comes with the string that
  the local \<^verbatim>\<open>result\<close> holds at that point, \<open>None\<close> when the call raised before the
  assignment. The \<^verbatim>\<open>print\<close> after the parse evaluates
  \<^verbatim>\<open>len(taxonomy.get('categories', []))\<close>, which raises on a value that is no
  dictionary and on categories that have no length.
\<close>

definition create_taxonomy_try :: "env \<Rightarrow> analyzer \<Rightarrow> string \<Rightarrow> (exn \<times> string option) + pyval" where
  "create_taxonomy_try E self prompt =
     (case create E (taxonomy_request self prompt) of
        Raised e \<Rightarrow> Inl (e, None)
      | Content None \<Rightarrow> Inl (loads_none, None)
      | Content (Some result) \<Rightarrow>
          (case and_then (loads E result) (\<lambda>taxonomy.
                and_then (py_get taxonomy ''categories'' (PList [])) (\<lambda>categories.
                and_then (py_len categories) (\<lambda>n. Inr taxonomy))) of
             Inl e \<Rightarrow> Inl (e, Some result)
           | Inr taxonomy \<Rightarrow> Inr taxonomy))"

text \<open>
  \<^verbatim>\<open>create_taxonomy\<close>: the summary and the prompt are built before the \<^verbatim>\<open>try\<close>, so an
  exception of the summary builder reaches the caller. The first handler takes a
  \<^verbatim>\<open>JSONDecodeError\<close> and reads \<^verbatim>\<open>result\<close>, which is unbound when the exception came
  from the call itself; the second takes every other exception.
\<close>

definition parse_failure :: "string \<Rightarrow> pyval" where
  "parse_failure result =
     PDict [(''error'', PStr ''Failed to parse taxonomy''), (''raw_response'', PStr result)]"

definition other_failure :: "exn \<Rightarrow> pyval" where
  "other_failure e = PDict [(''error'', PStr (exn_str e))]"

definition unbound_result :: exn where
  "unbound_result =
     Exn UnboundLocalError
       (''cannot access local variable '' @ quoted ''result''
        @ '' where it is not associated with a value'')"

definition create_taxonomy ::
  "env \<Rightarrow> analyzer \<Rightarrow> string \<Rightarrow> pydict list \<Rightarrow> (string \<times> pydict list) list \<Rightarrow> exn + pyval" where
  "create_taxonomy E self keyword github_data web_data =
     and_then (prepare_data_summary github_data web_data) (\<lambda>data_summary.
       case create_taxonomy_try E self (build_taxonomy_prompt keyword data_summary) of
         Inr taxonomy \<Rightarrow> Inr taxonomy
       | Inl (e, result) \<Rightarrow>
           if exn_class e = JSONDecodeError
           then (case result of
                   None \<Rightarrow> Inl unbound_result
                 | Some raw \<Rightarrow> Inr (parse_failure raw))
           else Inr (other_failure e))"

text \<open>
  An ErrorResult is a dictionary with the key \<^verbatim>\<open>error\<close>: the test
  \<^verbatim>\<open>"error" in taxonomy\<close> of \<^verbatim>\<open>enrich_taxonomy\<close> and of the agent.
\<close>

definition is_error_result :: "pyval \<Rightarrow> bool" where
  "is_error_result v = (case v of PDict d \<Rightarrow> contains d ''error'' | _ \<Rightarrow> False)"

section \<open>Enriching the taxonomy\<close>

definition build_enrich_prompt :: \<open>string \<Rightarrow> string\<close> where
  \<open>build_enrich_prompt taxonomy_text =
     join nl
      [''Given this ecosystem taxonomy:'',
       [],
       taxonomy_text,
       [],
       ''Provide additional insights:'',
       ''1. Market maturity assessment (emerging, growing, mature)'',
       ''2. Key differentiators between categories'',
       ''3. Gaps or underserved areas in the ecosystem'',
       ''4. Potential convergence or integration opportunities'',
       [],
       ''OUTPUT FORMAT (JSON):'',
       ''{'',
       ''  "maturity_level": "emerging|growing|mature",'',
       ''  "maturity_analysis": "Brief explanation",'',
       ''  "category_differentiators": {"Category1": "Key differentiator", "Category2": "Key differentiator"},'',
       ''  "ecosystem_gaps": ["Gap 1", "Gap 2"],'',
       ''  "integration_opportunities": ["Opportunity 1", "Opportunity 2"]'',
       ''}'',
       [],
       ''Respond ONLY with valid JSON.'']\<close>

definition enrich_request :: "analyzer \<Rightarrow> string \<Rightarrow> request" where
  "enrich_request self prompt =
     \<lparr>req_model = model self,
      req_messages = [(''system'', ''You are an expert technology ecosystem analyst.''),
                      (''user'', prompt)],
      req_temperature = ''0.3'',
      req_max_tokens = 2000\<rparr>"

text \<open>
  The \<^verbatim>\<open>try\<close> block of \<^verbatim>\<open>enrich_taxonomy\<close>: the assignment
  \<^verbatim>\<open>taxonomy["insights"] = insights\<close> is its last statement that changes anything, so
  a failure leaves the dictionary as it was. The function changes its argument in place
  and returns it; the model returns the dictionary as it is after the call.
\<close>

definition enrich_taxonomy_try :: "env \<Rightarrow> analyzer \<Rightarrow> pydict \<Rightarrow> string \<Rightarrow> exn + pydict" where
  "enrich_taxonomy_try E self taxonomy prompt =
     (case create E (enrich_request self prompt) of
        Raised e \<Rightarrow> Inl e
      | Content None \<Rightarrow> Inl loads_none
      | Content (Some text) \<Rightarrow>
          and_then (loads E text) (\<lambda>insights. Inr (setitem taxonomy ''insights'' insights)))"

definition enrich_taxonomy :: "env \<Rightarrow> analyzer \<Rightarrow> pydict \<Rightarrow> exn + pydict" where
  "enrich_taxonomy E self taxonomy =
     (if contains taxonomy ''error'' then Inr taxonomy
      else
        (case enrich_taxonomy_try E self taxonomy
                (build_enrich_prompt (dumps E (PDict taxonomy))) of
           Inr enriched \<Rightarrow> Inr enriched
         | Inl e \<Rightarrow> Inr taxonomy))"

section \<open>A model of the json module\<close>

text \<open>
  An executable model of \<^verbatim>\<open>json.loads\<close> and \<^verbatim>\<open>json.dumps(v, indent=2)\<close>, to run the
  analyzer on concrete responses. \<open>json_loads\<close> reads the grammar of RFC 8259 with
  Python's additions (\<^verbatim>\<open>NaN\<close>, \<^verbatim>\<open>Infinity\<close>, \<^verbatim>\<open>-Infinity\<close>), keeps the last value of
  a repeated key at the key's first place, and carries a float as its literal (the
  rounding to a double is not modelled). Every failure is a \<^verbatim>\<open>JSONDecodeError\<close>; its
  message, which names the position in Python, is the same short text here, and no path
  of the analyzer puts it into a result. The interpreter's limits (recursion depth,
  digits of an integer) are not modelled.

  The text is first cut into tokens, then read by a pushdown automaton, one token at a
  time, so that both passes are total functions.
\<close>

datatype token = TLBrace | TRBrace | TLBrack | TRBrack | TColon | TComma | TAtom pyval

definition is_ws :: "char \<Rightarrow> bool" where
  "is_ws c = (c = CHR '' '' \<or> c = CHR 0x09 \<or> c = CHR 0x0A \<or> c = CHR 0x0D)"

definition is_digit :: "char \<Rightarrow> bool" where
  "is_digit c = (48 \<le> (of_char c :: nat) \<and> (of_char c :: nat) \<le> 57)"

definition hex_val :: "char \<Rightarrow> nat option" where
  "hex_val c =
     (let n = (of_char c :: nat) in
      if 48 \<le> n \<and> n \<le> 57 then Some (n - 48)
      else if 97 \<le> n \<and> n \<le> 102 then Some (n - 87)
      else if 65 \<le> n \<and> n \<le> 70 then Some (n - 55)
      else None)"

definition hex4 :: "char \<Rightarrow> char \<Rightarrow> char \<Rightarrow> char \<Rightarrow> nat option" where
  "hex4 a b c d =
     (case (hex_val a, hex_val b, hex_val c, hex_val d) of
        (Some w, Some x, Some y, Some z) \<Rightarrow> Some (((w * 16 + x) * 16 + y) * 16 + z)
      | _ \<Rightarrow> None)"

definition utf8 :: "nat \<Rightarrow> string" where
  "utf8 cp =
     (if cp < 0x80 then [char_of cp]
      else if cp < 0x800 then [char_of (0xC0 + cp div 64), char_of (0x80 + cp mod 64)]
      else if cp < 0x10000 then
        [char_of (0xE0 + cp div 4096), char_of (0x80 + cp div 64 mod 64), char_of (0x80 + cp mod 64)]
      else
        [char_of (0xF0 + cp div 262144), char_of (0x80 + cp div 4096 mod 64),
         char_of (0x80 + cp div 64 mod 64), char_of (0x80 + cp mod 64)])"

definition unescape :: "char \<Rightarrow> char option" where
  "unescape c =
     (if c = CHR 0x22 \<or> c = CHR 0x5C \<or> c = CHR ''/'' then Some c
      else if c = CHR ''b'' then Some (CHR 0x08)
      else if c = CHR ''f'' then Some (CHR 0x0C)
      else if c = CHR ''n'' then Some (CHR 0x0A)
      else if c = CHR ''r'' then Some (CHR 0x0D)
      else if c = CHR ''t'' then Some (CHR 0x09)
      else None)"

fun low_surrogate :: "string \<Rightarrow> (nat \<times> string) option" where
  "low_surrogate (bs # u # a # b # c # d # rest) =
     (if bs = CHR 0x5C \<and> u = CHR ''u'' then
        (case hex4 a b c d of
           Some lo \<Rightarrow> if 0xDC00 \<le> lo \<and> lo \<le> 0xDFFF then Some (lo, rest) else None
         | None \<Rightarrow> None)
      else None)"
| "low_surrogate _ = None"

definition scan_escape :: "string \<Rightarrow> (string \<times> string) option" where
  "scan_escape cs =
     (case cs of
        [] \<Rightarrow> None
      | e # es \<Rightarrow>
          if e = CHR ''u'' then
            (case es of
               a # b # c # d # rest \<Rightarrow>
                 (case hex4 a b c d of
                    None \<Rightarrow> None
                  | Some hi \<Rightarrow>
                      if 0xD800 \<le> hi \<and> hi \<le> 0xDBFF then
                        (case low_surrogate rest of
                           Some (lo, rest') \<Rightarrow>
                             Some (utf8 (0x10000 + (hi - 0xD800) * 1024 + (lo - 0xDC00)), rest')
                         | None \<Rightarrow> Some (utf8 hi, rest))
                      else Some (utf8 hi, rest))
             | _ \<Rightarrow> None)
          else (case unescape e of None \<Rightarrow> None | Some x \<Rightarrow> Some ([x], es)))"

lemma low_surrogate_shorter:
  "low_surrogate s = Some (lo, rest) \<Longrightarrow> length rest < length s"
  by (induction s rule: low_surrogate.induct) (auto split: if_splits option.splits)

lemma scan_escape_shorter:
  "scan_escape cs = Some (x, rest) \<Longrightarrow> length rest < length cs"
  by (auto simp: scan_escape_def split: list.splits if_splits option.splits
           dest!: low_surrogate_shorter)

function scan_string :: "string \<Rightarrow> string \<Rightarrow> (string \<times> string) option" where
  "scan_string acc [] = None"
| "scan_string acc (c # cs) =
     (if c = CHR 0x22 then Some (acc, cs)
      else if c = CHR 0x5C then
        (case scan_escape cs of
           None \<Rightarrow> None
         | Some (x, rest) \<Rightarrow> scan_string (acc @ x) rest)
      else if (of_char c :: nat) < 32 then None
      else scan_string (acc @ [c]) cs)"
  by pat_completeness auto
termination
  by (relation "measure (\<lambda>(acc, cs). length cs)")
     (auto dest!: scan_escape_shorter)

lemma scan_string_shorter:
  "scan_string acc cs = Some (s, rest) \<Longrightarrow> length rest < length cs"
proof (induction acc cs rule: scan_string.induct)
  case (1 acc)
  then show ?case by simp
next
  case (2 acc c cs)
  show ?case
  proof (cases "c = CHR 0x22")
    case True
    with 2 show ?thesis by simp
  next
    case quote: False
    show ?thesis
    proof (cases "c = CHR 0x5C")
      case True
      with quote 2(3) obtain x r where e: "scan_escape cs = Some (x, r)"
        and s: "scan_string (acc @ x) r = Some (s, rest)"
        by (auto split: option.splits)
      from 2(1)[OF quote True e refl s] scan_escape_shorter[OF e] show ?thesis by simp
    next
      case False
      with quote 2(3) have c: "\<not> (of_char c :: nat) < 32"
        and s: "scan_string (acc @ [c]) cs = Some (s, rest)"
        by (auto split: if_splits)
      from 2(2)[OF quote False c s] show ?thesis by simp
    qed
  qed
qed


definition nat_of_digits :: "string \<Rightarrow> nat" where
  "nat_of_digits ds = foldl (\<lambda>n c. 10 * n + (of_char c - 48)) 0 ds"

definition scan_int :: "string \<Rightarrow> (string \<times> string) option" where
  "scan_int s =
     (case s of
        [] \<Rightarrow> None
      | c # cs \<Rightarrow>
          if c = CHR ''0'' then Some ([c], cs)
          else if is_digit c then Some (takeWhile is_digit s, dropWhile is_digit s)
          else None)"

definition scan_frac :: "string \<Rightarrow> string \<times> string" where
  "scan_frac s =
     (case s of
        c # cs \<Rightarrow>
          if c = CHR ''.'' \<and> takeWhile is_digit cs \<noteq> []
          then (c # takeWhile is_digit cs, dropWhile is_digit cs) else ([], s)
      | [] \<Rightarrow> ([], s))"

definition scan_exp :: "string \<Rightarrow> string \<times> string" where
  "scan_exp s =
     (case s of
        c # cs \<Rightarrow>
          if c = CHR ''e'' \<or> c = CHR ''E'' then
            (let sign = (case cs of d # ds \<Rightarrow> if d = CHR ''+'' \<or> d = CHR ''-'' then [d] else [] | [] \<Rightarrow> []);
                 ds = drop (length sign) cs
             in if takeWhile is_digit ds \<noteq> []
                then (c # sign @ takeWhile is_digit ds, dropWhile is_digit ds) else ([], s))
          else ([], s)
      | [] \<Rightarrow> ([], s))"

definition scan_number :: "string \<Rightarrow> (pyval \<times> string) option" where
  "scan_number s =
     (let sign = (case s of c # cs \<Rightarrow> if c = CHR ''-'' then [c] else [] | [] \<Rightarrow> [])
      in case scan_int (drop (length sign) s) of
           None \<Rightarrow> None
         | Some (digits, s1) \<Rightarrow>
             (let (frac, s2) = scan_frac s1; (ex, s3) = scan_exp s2
              in if frac = [] \<and> ex = []
                 then Some (PInt (if sign = [] then int (nat_of_digits digits)
                                  else - int (nat_of_digits digits)), s3)
                 else Some (PFloat (sign @ digits @ frac @ ex), s3)))"


lemma scan_int_shorter: "scan_int s = Some (d, r) \<Longrightarrow> length r < length s"
  by (auto simp: scan_int_def split: list.splits if_splits
           intro: le_imp_less_Suc length_dropWhile_le)

lemma scan_frac_shorter: "scan_frac s = (f, r) \<Longrightarrow> length r \<le> length s"
  by (auto simp: scan_frac_def split: list.splits if_splits
           intro: le_SucI length_dropWhile_le)

lemma scan_exp_shorter: "scan_exp s = (f, r) \<Longrightarrow> length r \<le> length s"
  by (auto simp: scan_exp_def Let_def split: list.splits if_splits
           intro: le_SucI length_dropWhile_le)

lemma scan_number_shorter: "scan_number s = Some (v, r) \<Longrightarrow> length r < length s"
proof -
  assume a: "scan_number s = Some (v, r)"
  define sign where "sign = (case s of c # cs \<Rightarrow> if c = CHR ''-'' then [c] else [] | [] \<Rightarrow> [])"
  from a obtain d s1 where i: "scan_int (drop (length sign) s) = Some (d, s1)"
    by (auto simp: scan_number_def sign_def Let_def split: option.splits)
  obtain f s2 where f: "scan_frac s1 = (f, s2)" by (cases "scan_frac s1")
  obtain e s3 where e: "scan_exp s2 = (e, s3)" by (cases "scan_exp s2")
  from a i f e have "r = s3"
    by (auto simp: scan_number_def sign_def Let_def split: if_splits)
  moreover have "length s1 < length s"
    using scan_int_shorter[OF i] by simp
  ultimately show ?thesis
    using scan_frac_shorter[OF f] scan_exp_shorter[OF e] by simp
qed

lemma after_ws: "dropWhile is_ws s = c # cs \<Longrightarrow> length cs < length s"
  using length_dropWhile_le[of is_ws s] by simp

function json_lex :: "string \<Rightarrow> token list option" where
  "json_lex s =
     (case dropWhile is_ws s of
        [] \<Rightarrow> Some []
      | c # cs \<Rightarrow>
          if c = CHR ''{'' then map_option ((#) TLBrace) (json_lex cs)
          else if c = CHR ''}'' then map_option ((#) TRBrace) (json_lex cs)
          else if c = CHR ''['' then map_option ((#) TLBrack) (json_lex cs)
          else if c = CHR '']'' then map_option ((#) TRBrack) (json_lex cs)
          else if c = CHR '':'' then map_option ((#) TColon) (json_lex cs)
          else if c = CHR '','' then map_option ((#) TComma) (json_lex cs)
          else if c = CHR 0x22 then
            (case scan_string [] cs of
               None \<Rightarrow> None
             | Some (str, rest) \<Rightarrow> map_option ((#) (TAtom (PStr str))) (json_lex rest))
          else if take 4 (c # cs) = ''null'' then
            map_option ((#) (TAtom PNone)) (json_lex (drop 3 cs))
          else if take 4 (c # cs) = ''true'' then
            map_option ((#) (TAtom (PBool True))) (json_lex (drop 3 cs))
          else if take 5 (c # cs) = ''false'' then
            map_option ((#) (TAtom (PBool False))) (json_lex (drop 4 cs))
          else if take 3 (c # cs) = ''NaN'' then
            map_option ((#) (TAtom (PFloat ''nan''))) (json_lex (drop 2 cs))
          else if take 8 (c # cs) = ''Infinity'' then
            map_option ((#) (TAtom (PFloat ''inf''))) (json_lex (drop 7 cs))
          else if take 9 (c # cs) = ''-Infinity'' then
            map_option ((#) (TAtom (PFloat ''-inf''))) (json_lex (drop 8 cs))
          else
            (case scan_number (c # cs) of
               None \<Rightarrow> None
             | Some (v, rest) \<Rightarrow> map_option ((#) (TAtom v)) (json_lex rest)))"
  by pat_completeness auto

termination
proof (relation "measure length", goal_cases)
  case 1
  show ?case by simp
next
  case (8 s c cs x str rest)
  then show ?case
    using scan_string_shorter[of "[]" cs str rest] after_ws[of s c cs] by simp
next
  case (15 s c cs x v rest)
  then show ?case
    using scan_number_shorter[of "c # cs" v rest] after_ws[of s c cs] by simp
qed (use after_ws in \<open>auto intro: le_less_trans[OF diff_le_self]\<close>)

text \<open>
  The automaton: the stack holds the arrays and objects that are open, \<open>FKey\<close> an
  object with a key that waits for its value; \<open>expect\<close> is what may come next.
\<close>

datatype frame = FArr "pyval list" | FObj pydict | FKey pydict string

datatype expect = EValue | EValueOrClose | EKey | EKeyOrClose | EColon | ECommaOrClose

datatype pstate = Parsing "frame list" expect | Done pyval

fun deliver :: "pyval \<Rightarrow> frame list \<Rightarrow> pstate option" where
  "deliver v [] = Some (Done v)"
| "deliver v (FArr elems # st) = Some (Parsing (FArr (elems @ [v]) # st) ECommaOrClose)"
| "deliver v (FKey d k # st) = Some (Parsing (FObj (setitem d k v) # st) ECommaOrClose)"
| "deliver v (FObj d # st) = None"

definition wants_value :: "expect \<Rightarrow> bool" where
  "wants_value ex = (ex = EValue \<or> ex = EValueOrClose)"

fun step :: "pstate \<Rightarrow> token \<Rightarrow> pstate option" where
  "step (Done v) t = None"
| "step (Parsing st ex) (TAtom v) =
     (if wants_value ex then deliver v st
      else if ex = EKey \<or> ex = EKeyOrClose then
        (case (v, st) of
           (PStr k, FObj d # st') \<Rightarrow> Some (Parsing (FKey d k # st') EColon)
         | _ \<Rightarrow> None)
      else None)"
| "step (Parsing st ex) TLBrack =
     (if wants_value ex then Some (Parsing (FArr [] # st) EValueOrClose) else None)"
| "step (Parsing st ex) TLBrace =
     (if wants_value ex then Some (Parsing (FObj [] # st) EKeyOrClose) else None)"
| "step (Parsing st ex) TRBrack =
     (case st of
        FArr elems # st' \<Rightarrow>
          if ex = EValueOrClose \<or> ex = ECommaOrClose then deliver (PList elems) st' else None
      | _ \<Rightarrow> None)"
| "step (Parsing st ex) TRBrace =
     (case st of
        FObj d # st' \<Rightarrow>
          if ex = EKeyOrClose \<or> ex = ECommaOrClose then deliver (PDict d) st' else None
      | _ \<Rightarrow> None)"
| "step (Parsing st ex) TComma =
     (if ex = ECommaOrClose then
        (case st of
           FArr elems # st' \<Rightarrow> Some (Parsing st EValue)
         | FObj d # st' \<Rightarrow> Some (Parsing st EKey)
         | _ \<Rightarrow> None)
      else None)"
| "step (Parsing st ex) TColon =
     (if ex = EColon then Some (Parsing st EValue) else None)"

fun run :: "pstate \<Rightarrow> token list \<Rightarrow> pstate option" where
  "run s [] = Some s"
| "run s (t # ts) = (case step s t of None \<Rightarrow> None | Some s' \<Rightarrow> run s' ts)"

definition json_error :: exn where
  "json_error = Exn JSONDecodeError ''Expecting value''"

definition json_loads :: "string \<Rightarrow> exn + pyval" where
  "json_loads text =
     (case json_lex text of
        None \<Rightarrow> Inl json_error
      | Some toks \<Rightarrow>
          (case run (Parsing [] EValue) toks of
             Some (Done v) \<Rightarrow> Inr v
           | _ \<Rightarrow> Inl json_error))"

text \<open>
  \<^verbatim>\<open>json.dumps(v, indent=2)\<close>: items one per line, indented by two spaces a level;
  strings escaped as \<^verbatim>\<open>ensure_ascii\<close> does.
\<close>

definition json_escape :: "char \<Rightarrow> string" where
  "json_escape c =
     (if c = CHR 0x22 \<or> c = CHR 0x5C then [CHR 0x5C, c]
      else if c = CHR 0x0A then [CHR 0x5C, CHR ''n'']
      else if c = CHR 0x0D then [CHR 0x5C, CHR ''r'']
      else if c = CHR 0x09 then [CHR 0x5C, CHR ''t'']
      else if c = CHR 0x08 then [CHR 0x5C, CHR ''b'']
      else if c = CHR 0x0C then [CHR 0x5C, CHR ''f'']
      else if (of_char c :: nat) < 32 \<or> 126 < (of_char c :: nat)
        then [CHR 0x5C, CHR ''u'', CHR ''0'', CHR ''0'',
              digit_char (of_char c div 16), digit_char (of_char c mod 16)]
      else [c])"

definition json_string :: "string \<Rightarrow> string" where
  "json_string s = [CHR 0x22] @ concat (map json_escape s) @ [CHR 0x22]"

definition indent :: "nat \<Rightarrow> string" where
  "indent n = replicate (2 * n) CHR '' ''"

fun dumps_at :: "nat \<Rightarrow> pyval \<Rightarrow> string" where
  "dumps_at n PNone = ''null''"
| "dumps_at n (PBool b) = (if b then ''true'' else ''false'')"
| "dumps_at n (PInt i) = str_int i"
| "dumps_at n (PFloat r) =
     (if r = ''nan'' then ''NaN'' else if r = ''inf'' then ''Infinity''
      else if r = ''-inf'' then ''-Infinity'' else r)"
| "dumps_at n (PStr s) = json_string s"
| "dumps_at n (PList vs) =
     (if vs = [] then ''[]''
      else ''['' @ nl @ indent (Suc n)
           @ join ('','' @ nl @ indent (Suc n)) (map (dumps_at (Suc n)) vs)
           @ nl @ indent n @ '']'')"
| "dumps_at n (PDict d) =
     (if d = [] then ''{}''
      else ''{'' @ nl @ indent (Suc n)
           @ join ('','' @ nl @ indent (Suc n))
               (map (\<lambda>(k, v). json_string k @ '': '' @ dumps_at (Suc n) v) d)
           @ nl @ indent n @ ''}'')"

definition json_dumps :: "pyval \<Rightarrow> string" where
  "json_dumps v = dumps_at 0 v"

text \<open>The environment with the model of the json module, around a given client.\<close>

definition py_env :: "(request \<Rightarrow> completion) \<Rightarrow> env" where
  "py_env client = \<lparr>create = client, loads = json_loads, dumps = json_dumps\<rparr>"

section \<open>Scenarios\<close>

text \<open>
  An analyzer as the constructor builds it, a client that answers every request with a
  given text, a client that fails with a given exception (a timeout, or the
  \<^verbatim>\<open>JSONDecodeError\<close> of a response body that is not JSON), and the documents of the
  scenarios: a taxonomy with one category, as a value and as the JSON text of a
  response, and a short insights document.
\<close>

definition test_analyzer :: analyzer where
  "test_analyzer = \<lparr>api_key = ''sk-test'', model = ''google/gemini-3-flash-preview''\<rparr>"

definition answers :: "string \<Rightarrow> request \<Rightarrow> completion" where
  "answers text req = Content (Some text)"

definition fails :: "exn \<Rightarrow> request \<Rightarrow> completion" where
  "fails e req = Raised e"

definition timeout :: exn where
  "timeout = Exn APIError ''Request timed out.''"

definition decode_error :: exn where
  "decode_error = Exn JSONDecodeError ''Expecting value: line 1 column 1 (char 0)''"

definition one_category :: pydict where
  "one_category =
     [(''ecosystem_name'', PStr ''agentic AI''),
      (''overview'', PStr ''Agents that plan and act.''),
      (''categories'',
         PList [PDict [(''name'', PStr ''Frameworks''),
                       (''description'', PStr ''Libraries for building agents''),
                       (''subcategories'', PList [PStr ''Orchestration'', PStr ''Memory'']),
                       (''examples'',
                          PList [PDict [(''name'', PStr ''agent-framework''),
                                        (''description'', PStr ''A framework''),
                                        (''url'', PNone),
                                        (''type'', PStr ''open-source'')]]),
                       (''relationships'', PList [])]]),
      (''key_trends'', PList [PStr ''tool use'']),
      (''emerging_areas'', PList [])]"

definition one_category_text :: string where
  \<open>one_category_text = ''{"ecosystem_name": "agentic AI", "overview": "Agents that plan and act.", "categories": [{"name": "Frameworks", "description": "Libraries for building agents", "subcategories": ["Orchestration", "Memory"], "examples": [{"name": "agent-framework", "description": "A framework", "url": null, "type": "open-source"}], "relationships": []}], "key_trends": ["tool use"], "emerging_areas": []}''\<close>

definition insights_text :: string where
  \<open>insights_text = ''{"maturity_level": "growing", "ecosystem_gaps": ["evaluation"]}''\<close>

text \<open>
  Scenario 1 of the specification: five repository records with the star counts 100,
  200, 50, 400 and 10, in that order, as the collector builds them (an absent
  description is the empty string, an absent language \<^verbatim>\<open>None\<close>), and the summary
  expected of them with no web results.
\<close>

definition scenario_repo :: "string \<Rightarrow> int \<Rightarrow> pydict" where
  "scenario_repo name stars =
     [(''name'', PStr name), (''full_name'', PStr (''org/'' @ name)), (''description'', PStr []),
      (''stars'', PInt stars), (''language'', PNone), (''topics'', PList [])]"

definition five_repos :: "pydict list" where
  "five_repos = [scenario_repo ''a'' 100, scenario_repo ''b'' 200, scenario_repo ''c'' 50,
                 scenario_repo ''d'' 400, scenario_repo ''e'' 10]"

definition five_summary_text :: string where
  "five_summary_text =
     ''=== GITHUB REPOSITORIES ==='' @ nl @ nl
     @ ''1. org/a (100'' @ star @ '')'' @ nl @ ''   Description: '' @ nl
     @ ''   Topics: '' @ nl @ ''   Language: None'' @ nl @ nl
     @ ''2. org/b (200'' @ star @ '')'' @ nl @ ''   Description: '' @ nl
     @ ''   Topics: '' @ nl @ ''   Language: None'' @ nl @ nl
     @ ''3. org/c (50'' @ star @ '')'' @ nl @ ''   Description: '' @ nl
     @ ''   Topics: '' @ nl @ ''   Language: None'' @ nl @ nl
     @ ''4. org/d (400'' @ star @ '')'' @ nl @ ''   Description: '' @ nl
     @ ''   Topics: '' @ nl @ ''   Language: None'' @ nl @ nl
     @ ''5. org/e (10'' @ star @ '')'' @ nl @ ''   Description: '' @ nl
     @ ''   Topics: '' @ nl @ ''   Language: None'' @ nl"

text \<open>
  Web results as the searcher builds them, a result set with two categories and the
  summary expected of it, a repository with a given description, and one with six
  topics.
\<close>

definition scenario_result :: "string \<Rightarrow> string \<Rightarrow> pydict" where
  "scenario_result title content =
     [(''title'', PStr title), (''url'', PStr (''https://example.com/'' @ title)),
      (''content'', PStr content), (''score'', PFloat ''0.95''), (''published_date'', PStr [])]"

definition two_categories :: "(string \<times> pydict list) list" where
  "two_categories =
     [(''general'', [scenario_result ''intro'' ''Agents act.'', scenario_result ''survey'' ''A survey.'']),
      (''tools'', [scenario_result ''kit'' ''A toolkit.''])]"

definition two_categories_text :: string where
  "two_categories_text =
     ''=== GITHUB REPOSITORIES ==='' @ nl @ nl @ nl
     @ ''=== WEB RESULTS: GENERAL ==='' @ nl @ nl
     @ ''1. intro'' @ nl @ ''   URL: https://example.com/intro'' @ nl
     @ ''   Content: Agents act....'' @ nl @ nl
     @ ''2. survey'' @ nl @ ''   URL: https://example.com/survey'' @ nl
     @ ''   Content: A survey....'' @ nl @ nl @ nl
     @ ''=== WEB RESULTS: TOOLS ==='' @ nl @ nl
     @ ''1. kit'' @ nl @ ''   URL: https://example.com/kit'' @ nl
     @ ''   Content: A toolkit....'' @ nl"

definition described :: "string \<Rightarrow> pydict" where
  "described d =
     [(''full_name'', PStr ''org/r''), (''stars'', PInt 0), (''description'', PStr d),
      (''topics'', PList []), (''language'', PNone)]"

definition many_topics :: pydict where
  "many_topics =
     [(''full_name'', PStr ''org/t''), (''stars'', PInt 3), (''description'', PStr ''d''),
      (''topics'', PList [PStr ''a'', PStr ''b'', PStr ''c'', PStr ''d'', PStr ''e'', PStr ''f'']),
      (''language'', PStr ''Python'')]"

section \<open>Properties\<close>

subsection \<open>Sequencing, loops and the scenarios' clients\<close>

lemma and_then_Inr [simp]: "and_then (Inr x) f = f x"
  by (simp add: and_then_def)

lemma and_then_Inl [simp]: "and_then (Inl e) f = Inl e"
  by (simp add: and_then_def)

lemma summary_nothing: "prepare_data_summary [] [] = Inr (''=== GITHUB REPOSITORIES ==='' @ nl)"
  by (simp add: prepare_data_summary_def enumerate_eq_zip)

lemma answers_any: "create (py_env (answers text)) req = Content (Some text)"
  by (simp add: py_env_def answers_def)

lemma fails_any: "create (py_env (fails e)) req = Raised e"
  by (simp add: py_env_def fails_def)

lemma loads_py_env: "loads (py_env client) = json_loads"
  by (simp add: py_env_def)

lemma loads_one_category: "json_loads one_category_text = Inr (PDict one_category)"
  by code_simp

lemma not_dict_no_get:
  "\<forall>d. v \<noteq> PDict d \<Longrightarrow>
     py_get v k dflt
       = Inl (Exn AttributeError (quoted (type_name v) @ '' object has no attribute '' @ quoted ''get''))"
  by (cases v) (simp_all add: py_get_def)

lemma setitem_new: "map_of d k = None \<Longrightarrow> setitem d k v = d @ [(k, v)]"
  by (induction d) (auto split: if_splits)

lemma init_needs_key:
  "getenv ''OPENROUTER_API_KEY'' = None \<or> getenv ''OPENROUTER_API_KEY'' = Some [] \<Longrightarrow>
     init getenv = Inl (Exn ValueError ''OPENROUTER_API_KEY environment variable not set'')"
  by (auto simp: init_def)

lemma init_has_key: "init getenv = Inr self \<Longrightarrow> api_key self \<noteq> []"
  by (auto simp: init_def Let_def split: option.splits if_splits)

text \<open>
  A \<^verbatim>\<open>JSONDecodeError\<close> that the client itself raises reaches the first handler
  before \<^verbatim>\<open>result\<close> is bound: the handler's \<^verbatim>\<open>print\<close> of it raises, and the caller
  gets an \<^verbatim>\<open>UnboundLocalError\<close>.
\<close>

lemma client_decode_error_escapes:
  assumes "prepare_data_summary github_data web_data = Inr data_summary"
    and "create E (taxonomy_request self (build_taxonomy_prompt keyword data_summary)) = Raised e"
    and "exn_class e = JSONDecodeError"
  shows "create_taxonomy E self keyword github_data web_data = Inl unbound_result"
  using assms
  by (simp add: create_taxonomy_def create_taxonomy_try_def)

subsection \<open>The parser of \<^verbatim>\<open>create_taxonomy\<close>\<close>

text \<open>
  Claim C2. A response text that is not valid as a document, because
  \<^verbatim>\<open>json.loads\<close> raises on it or gives a value that is no dictionary (an array, a
  number, a bare string, a boolean, \<^verbatim>\<open>null\<close>), makes \<^verbatim>\<open>create_taxonomy\<close> return an
  ErrorResult, never the parsed value. For a parsed value that is no dictionary the
  exception comes from \<^verbatim>\<open>taxonomy.get\<close> in the \<^verbatim>\<open>print\<close> after the parse, and
  the second handler turns it into the ErrorResult. The witness runs an array, a number
  and a bare string. (A dictionary is accepted whatever keys it has: the parser checks
  no field.)
\<close>

theorem non_document_is_error_result:
  assumes "prepare_data_summary github_data web_data = Inr data_summary"
    and "create E (taxonomy_request self (build_taxonomy_prompt keyword data_summary))
           = Content (Some text)"
    and "\<forall>d. loads E text \<noteq> Inr (PDict d)"
  shows "\<exists>r. create_taxonomy E self keyword github_data web_data = Inr r
           \<and> is_error_result r \<and> loads E text \<noteq> Inr r
           \<and> (\<forall>v. loads E text = Inr v \<longrightarrow>
                 r = PDict [(''error'',
                      PStr (quoted (type_name v) @ '' object has no attribute '' @ quoted ''get''))])"
proof (cases "loads E text")
  case (Inl e)
  with assms(1,2) show ?thesis
    by (simp add: create_taxonomy_def create_taxonomy_try_def parse_failure_def
          other_failure_def is_error_result_def contains_def)
next
  case (Inr v)
  with assms(3) have nd: "\<forall>d. v \<noteq> PDict d" by simp
  have "create_taxonomy E self keyword github_data web_data
          = Inr (PDict [(''error'',
              PStr (quoted (type_name v) @ '' object has no attribute '' @ quoted ''get''))])"
    using assms(1,2) Inr not_dict_no_get [OF nd]
    by (simp add: create_taxonomy_def create_taxonomy_try_def other_failure_def)
  with Inr nd show ?thesis
    by (simp add: is_error_result_def contains_def)
qed

theorem non_document_is_error_result_witness:
  "create_taxonomy (py_env (answers ''[1, 2]'')) test_analyzer ''agentic AI'' [] []
     = Inr (PDict [(''error'', PStr (quoted ''list'' @ '' object has no attribute '' @ quoted ''get''))])
   \<and> create_taxonomy (py_env (answers ''42'')) test_analyzer ''agentic AI'' [] []
     = Inr (PDict [(''error'', PStr (quoted ''int'' @ '' object has no attribute '' @ quoted ''get''))])
   \<and> create_taxonomy (py_env (answers [CHR 0x22, CHR ''h'', CHR ''i'', CHR 0x22])) test_analyzer
        ''agentic AI'' [] []
     = Inr (PDict [(''error'', PStr (quoted ''str'' @ '' object has no attribute '' @ quoted ''get''))])"
proof -
  have l1: "json_loads ''[1, 2]'' = Inr (PList [PInt 1, PInt 2])"
    by code_simp
  have l2: "json_loads ''42'' = Inr (PInt 42)"
    by code_simp
  have l3: "json_loads [CHR 0x22, CHR ''h'', CHR ''i'', CHR 0x22] = Inr (PStr ''hi'')"
    by code_simp
  have "\<forall>d. loads (py_env (answers ''[1, 2]'')) ''[1, 2]'' \<noteq> Inr (PDict d)"
    by (simp add: loads_py_env l1)
  from non_document_is_error_result [OF summary_nothing answers_any this]
  have r1: "create_taxonomy (py_env (answers ''[1, 2]'')) test_analyzer ''agentic AI'' [] []
     = Inr (PDict [(''error'', PStr (quoted ''list'' @ '' object has no attribute '' @ quoted ''get''))])"
    by (auto simp: loads_py_env l1 type_name_def)
  have "\<forall>d. loads (py_env (answers ''42'')) ''42'' \<noteq> Inr (PDict d)"
    by (simp add: loads_py_env l2)
  from non_document_is_error_result [OF summary_nothing answers_any this]
  have r2: "create_taxonomy (py_env (answers ''42'')) test_analyzer ''agentic AI'' [] []
     = Inr (PDict [(''error'', PStr (quoted ''int'' @ '' object has no attribute '' @ quoted ''get''))])"
    by (auto simp: loads_py_env l2 type_name_def)
  have "\<forall>d. loads (py_env (answers [CHR 0x22, CHR ''h'', CHR ''i'', CHR 0x22]))
               [CHR 0x22, CHR ''h'', CHR ''i'', CHR 0x22] \<noteq> Inr (PDict d)"
    by (simp add: loads_py_env l3)
  from non_document_is_error_result [OF summary_nothing answers_any this]
  have r3: "create_taxonomy (py_env (answers [CHR 0x22, CHR ''h'', CHR ''i'', CHR 0x22])) test_analyzer
        ''agentic AI'' [] []
     = Inr (PDict [(''error'', PStr (quoted ''str'' @ '' object has no attribute '' @ quoted ''get''))])"
    by (auto simp: loads_py_env l3 type_name_def)
  from r1 r2 r3 show ?thesis by simp
qed

text \<open>
  Claim C3. When the response text fails to parse (\<^verbatim>\<open>json.loads\<close> raises
  \<^verbatim>\<open>JSONDecodeError\<close>), \<^verbatim>\<open>create_taxonomy\<close> returns the dictionary whose
  \<^verbatim>\<open>error\<close> is the fixed text \<^verbatim>\<open>Failed to parse taxonomy\<close> and whose
  \<^verbatim>\<open>raw_response\<close> is the response text itself. The witness is scenario 2 of the
  specification: the response \<^verbatim>\<open>not json at all\<close>, read by the model of
  \<^verbatim>\<open>json.loads\<close>.
\<close>

theorem parse_failure_keeps_raw_text:
  assumes "prepare_data_summary github_data web_data = Inr data_summary"
    and "create E (taxonomy_request self (build_taxonomy_prompt keyword data_summary))
           = Content (Some text)"
    and "loads E text = Inl e"
    and "exn_class e = JSONDecodeError"
  shows "create_taxonomy E self keyword github_data web_data
           = Inr (PDict [(''error'', PStr ''Failed to parse taxonomy''),
                         (''raw_response'', PStr text)])"
  using assms
  by (simp add: create_taxonomy_def create_taxonomy_try_def parse_failure_def)

theorem parse_failure_keeps_raw_text_witness:
  "create_taxonomy (py_env (answers ''not json at all'')) test_analyzer ''agentic AI'' [] []
     = Inr (PDict [(''error'', PStr ''Failed to parse taxonomy''),
                   (''raw_response'', PStr ''not json at all'')])"
proof -
  have l: "loads (py_env (answers ''not json at all'')) ''not json at all'' = Inl json_error"
    unfolding loads_py_env by code_simp
  have c: "exn_class json_error = JSONDecodeError"
    by (simp add: json_error_def)
  show ?thesis
    by (rule parse_failure_keeps_raw_text [OF summary_nothing answers_any l c])
qed

text \<open>
  Claim C8. When the response text parses to a document whose \<^verbatim>\<open>categories\<close> is a
  list, as every document of the Taxonomy shape is, \<^verbatim>\<open>create_taxonomy\<close> returns the
  parsed document itself: its categories are the list the parser read, with the same
  length and the same values. The witness parses the JSON text of a taxonomy with one
  category by the model of \<^verbatim>\<open>json.loads\<close>.
\<close>

theorem valid_document_is_returned:
  assumes "prepare_data_summary github_data web_data = Inr data_summary"
    and "create E (taxonomy_request self (build_taxonomy_prompt keyword data_summary))
           = Content (Some text)"
    and "loads E text = Inr (PDict d)"
    and "map_of d ''categories'' = Some (PList categories)"
  shows "create_taxonomy E self keyword github_data web_data = Inr (PDict d)
         \<and> getitem d ''categories'' = Inr (PList categories)"
  using assms
  by (simp add: create_taxonomy_def create_taxonomy_try_def py_get_def dict_get_def py_len_def
        getitem_def)

theorem valid_document_is_returned_witness:
  "create_taxonomy (py_env (answers one_category_text)) test_analyzer ''agentic AI'' [] []
     = Inr (PDict one_category)
   \<and> getitem one_category ''categories''
     = Inr (PList [PDict [(''name'', PStr ''Frameworks''),
                       (''description'', PStr ''Libraries for building agents''),
                       (''subcategories'', PList [PStr ''Orchestration'', PStr ''Memory'']),
                       (''examples'',
                          PList [PDict [(''name'', PStr ''agent-framework''),
                                        (''description'', PStr ''A framework''),
                                        (''url'', PNone),
                                        (''type'', PStr ''open-source'')]]),
                       (''relationships'', PList [])]])"
proof -
  have l: "loads (py_env (answers one_category_text)) one_category_text = Inr (PDict one_category)"
    by (simp add: loads_py_env loads_one_category)
  have c: "map_of one_category ''categories''
     = Some (PList [PDict [(''name'', PStr ''Frameworks''),
                       (''description'', PStr ''Libraries for building agents''),
                       (''subcategories'', PList [PStr ''Orchestration'', PStr ''Memory'']),
                       (''examples'',
                          PList [PDict [(''name'', PStr ''agent-framework''),
                                        (''description'', PStr ''A framework''),
                                        (''url'', PNone),
                                        (''type'', PStr ''open-source'')]]),
                       (''relationships'', PList [])]])"
    by (simp add: one_category_def)
  show ?thesis
    by (rule valid_document_is_returned [OF summary_nothing answers_any l c])
qed

text \<open>
  The second handler (\<^verbatim>\<open>except Exception\<close>): when the inference call raises an
  exception of any class but \<^verbatim>\<open>JSONDecodeError\<close> (a timeout, an authentication or
  rate-limit failure), \<^verbatim>\<open>create_taxonomy\<close> returns the dictionary that holds the
  exception's text under \<^verbatim>\<open>error\<close> and nothing else, so no \<^verbatim>\<open>raw_response\<close>.
\<close>

lemma other_exception_has_no_raw_text:
  assumes "prepare_data_summary github_data web_data = Inr data_summary"
    and "create E (taxonomy_request self (build_taxonomy_prompt keyword data_summary)) = Raised e"
    and "exn_class e \<noteq> JSONDecodeError"
  shows "create_taxonomy E self keyword github_data web_data
           = Inr (PDict [(''error'', PStr (exn_str e))])"
  using assms
  by (simp add: create_taxonomy_def create_taxonomy_try_def other_failure_def)

lemma timeout_has_no_raw_text:
  "create_taxonomy (py_env (fails timeout)) test_analyzer ''agentic AI'' [] []
     = Inr (PDict [(''error'', PStr ''Request timed out.'')])"
proof -
  have c: "exn_class timeout \<noteq> JSONDecodeError"
    by (simp add: timeout_def)
  have "exn_str timeout = ''Request timed out.''"
    by (simp add: timeout_def)
  with other_exception_has_no_raw_text [OF summary_nothing fails_any c] show ?thesis
    by simp
qed

text \<open>
  Claim C9 (a defect of the code). The claim asks for an ErrorResult with the failure's
  description and no raw text on every failure of the inference round-trip that is no
  failure to parse the response text. The code misses one: when the client itself
  raises \<^verbatim>\<open>json.JSONDecodeError\<close> (the backend's HTTP body is not JSON), the first
  handler takes the exception and reads \<^verbatim>\<open>result\<close>, which the failed call never
  bound, so \<^verbatim>\<open>create_taxonomy\<close> raises \<^verbatim>\<open>UnboundLocalError\<close> to its caller and
  returns no ErrorResult. And a missing API key is no failure \<^verbatim>\<open>create_taxonomy\<close>
  could report: the constructor raises \<^verbatim>\<open>ValueError\<close>. The theorem evaluates both.
\<close>

theorem client_decode_error_reaches_caller:
  "create_taxonomy (py_env (fails decode_error)) test_analyzer ''agentic AI'' [] []
     = Inl (Exn UnboundLocalError
              (''cannot access local variable '' @ quoted ''result''
               @ '' where it is not associated with a value''))
   \<and> init (\<lambda>name. None)
     = Inl (Exn ValueError ''OPENROUTER_API_KEY environment variable not set'')"
proof -
  have c: "exn_class decode_error = JSONDecodeError"
    by (simp add: decode_error_def)
  from client_decode_error_escapes [OF summary_nothing fails_any c]
  have "create_taxonomy (py_env (fails decode_error)) test_analyzer ''agentic AI'' [] []
     = Inl (Exn UnboundLocalError
              (''cannot access local variable '' @ quoted ''result''
               @ '' where it is not associated with a value''))"
    by (simp add: unbound_result_def)
  moreover have "init (\<lambda>name. None)
     = Inl (Exn ValueError ''OPENROUTER_API_KEY environment variable not set'')"
    by (rule init_needs_key) simp
  ultimately show ?thesis by simp
qed

subsection \<open>The enrichment merger\<close>

text \<open>
  Claim C4. When the enrichment call raises, or gives no content, or gives a text that
  \<^verbatim>\<open>json.loads\<close> raises on, \<^verbatim>\<open>enrich_taxonomy\<close> returns normally, and what it returns
  is the taxonomy it was given: no key added, no value changed. This holds of every
  taxonomy. The witness is scenario 3: a taxonomy with one category and a backend that
  times out; the result is the input, which has no \<^verbatim>\<open>insights\<close>.
\<close>

theorem enrichment_failure_returns_input:
  assumes "create E (enrich_request self (build_enrich_prompt (dumps E (PDict taxonomy)))) = Raised e
           \<or> create E (enrich_request self (build_enrich_prompt (dumps E (PDict taxonomy)))) = Content None
           \<or> (\<exists>text e'. create E (enrich_request self (build_enrich_prompt (dumps E (PDict taxonomy))))
                          = Content (Some text) \<and> loads E text = Inl e')"
  shows "enrich_taxonomy E self taxonomy = Inr taxonomy"
  using assms
  by (auto simp: enrich_taxonomy_def enrich_taxonomy_try_def)

theorem enrichment_failure_returns_input_witness:
  "enrich_taxonomy (py_env (fails timeout)) test_analyzer one_category = Inr one_category
   \<and> map_of one_category ''insights'' = None"
proof -
  have "enrich_taxonomy (py_env (fails timeout)) test_analyzer one_category = Inr one_category"
    by (rule enrichment_failure_returns_input [of _ _ _ timeout]) (simp add: fails_any)
  moreover have "map_of one_category ''insights'' = None"
    by (simp add: one_category_def)
  ultimately show ?thesis by simp
qed

text \<open>
  Claim C5. For a taxonomy with neither an \<^verbatim>\<open>error\<close> nor an \<^verbatim>\<open>insights\<close> key, when the
  enrichment call answers and the answer parses, \<^verbatim>\<open>enrich_taxonomy\<close> returns the
  taxonomy with one key more, \<^verbatim>\<open>insights\<close>, put last and bound to the parsed answer:
  the keys before it are the taxonomy's keys in their order, every other key has the
  value it had, and \<^verbatim>\<open>categories\<close> in particular is unchanged.
\<close>

theorem enrichment_adds_only_insights:
  assumes "\<not> contains taxonomy ''error''"
    and "\<not> contains taxonomy ''insights''"
    and "create E (enrich_request self (build_enrich_prompt (dumps E (PDict taxonomy))))
           = Content (Some text)"
    and "loads E text = Inr insights"
  shows "\<exists>enriched. enrich_taxonomy E self taxonomy = Inr enriched
           \<and> enriched = taxonomy @ [(''insights'', insights)]
           \<and> keys enriched = keys taxonomy @ [''insights'']
           \<and> (\<forall>k. k \<noteq> ''insights'' \<longrightarrow> map_of enriched k = map_of taxonomy k)
           \<and> getitem enriched ''categories'' = getitem taxonomy ''categories''"
proof -
  from assms(2) have n: "map_of taxonomy ''insights'' = None"
    by (simp add: contains_def)
  have e: "enrich_taxonomy E self taxonomy = Inr (taxonomy @ [(''insights'', insights)])"
    using assms(1,3,4) setitem_new [OF n]
    by (simp add: enrich_taxonomy_def enrich_taxonomy_try_def)
  have "\<forall>k. k \<noteq> ''insights'' \<longrightarrow> map_of (taxonomy @ [(''insights'', insights)]) k = map_of taxonomy k"
    by (simp add: map_add_def split: option.splits)
  then show ?thesis
    using e by (simp add: keys_def getitem_def)
qed

theorem enrichment_adds_only_insights_witness:
  "enrich_taxonomy (py_env (answers insights_text)) test_analyzer one_category
     = Inr (one_category @ [(''insights'',
              PDict [(''maturity_level'', PStr ''growing''),
                     (''ecosystem_gaps'', PList [PStr ''evaluation''])])])
   \<and> getitem (one_category @ [(''insights'',
              PDict [(''maturity_level'', PStr ''growing''),
                     (''ecosystem_gaps'', PList [PStr ''evaluation''])])]) ''categories''
     = getitem one_category ''categories''"
proof -
  have l: "loads (py_env (answers insights_text)) insights_text
             = Inr (PDict [(''maturity_level'', PStr ''growing''),
                           (''ecosystem_gaps'', PList [PStr ''evaluation''])])"
    unfolding loads_py_env by code_simp
  have e: "\<not> contains one_category ''error''"
    by (simp add: contains_def one_category_def)
  have i: "\<not> contains one_category ''insights''"
    by (simp add: contains_def one_category_def)
  from enrichment_adds_only_insights [OF e i answers_any l] show ?thesis
    by auto
qed

subsection \<open>The summary builder\<close>

lemma traverse_Inr:
  "traverse f xs = Inr ys \<longleftrightarrow> list_all2 (\<lambda>x y. f x = Inr y) xs ys"
proof (induction xs arbitrary: ys)
  case Nil
  then show ?case by auto
next
  case (Cons x xs)
  show ?case
  proof (cases "f x")
    case (Inl e)
    then show ?thesis by (auto simp: list_all2_Cons1)
  next
    case fx: (Inr y)
    show ?thesis
    proof (cases "traverse f xs")
      case (Inl e)
      with Cons fx show ?thesis by (auto simp: list_all2_Cons1)
    next
      case (Inr zs)
      with Cons fx show ?thesis by (auto simp: list_all2_Cons1)
    qed
  qed
qed

lemma traverse_Inl:
  "x \<in> set xs \<Longrightarrow> f x = Inl e \<Longrightarrow> \<exists>e'. traverse f xs = Inl e'"
proof (induction xs)
  case Nil
  then show ?case by simp
next
  case (Cons a xs)
  then show ?case
    by (cases "f a"; cases "traverse f xs") auto
qed

lemma traverse_nth:
  assumes "traverse f xs = Inr ys"
  shows "length ys = length xs \<and> (\<forall>i<length xs. f (xs ! i) = Inr (ys ! i))"
  using assms by (auto simp: traverse_Inr list_all2_conv_all_nth)

lemma summary_parts:
  assumes "prepare_data_summary g w = Inr s"
  shows "\<exists>repo_parts web_parts.
           traverse (\<lambda>(i, repo). render_repo i repo) (enumerate 1 (take 30 g)) = Inr repo_parts
         \<and> traverse category_parts w = Inr web_parts
         \<and> s = join nl ((''=== GITHUB REPOSITORIES ==='' @ nl) # repo_parts @ concat web_parts)"
  using assms
  by (auto simp: prepare_data_summary_def and_then_def split: sum.splits)

lemma category_parts_parts:
  assumes "category_parts (c, rs) = Inr ps"
  shows "\<exists>parts.
           traverse (\<lambda>(i, result). render_result i result) (enumerate 1 (take 15 rs)) = Inr parts
         \<and> ps = category_header c # parts"
  using assms
  by (auto simp: category_parts_def and_then_def split: sum.splits)

lemma numbered_parts:
  assumes "traverse (\<lambda>(i, x). f i x) (enumerate 1 (take n xs)) = Inr parts"
  shows "length parts = min n (length xs) \<and> (\<forall>i<min n (length xs). f (Suc i) (xs ! i) = Inr (parts ! i))"
proof -
  from traverse_nth [OF assms]
  have l: "length parts = min n (length xs)"
    and a: "\<forall>i<length (enumerate 1 (take n xs)).
              (\<lambda>(i, x). f i x) (enumerate 1 (take n xs) ! i) = Inr (parts ! i)"
    by (simp_all add: min.commute)
  have "f (Suc i) (xs ! i) = Inr (parts ! i)" if "i < min n (length xs)" for i
  proof -
    from that have "i < length (take n xs)" by simp
    then have "enumerate 1 (take n xs) ! i = (Suc i, xs ! i)"
      by (simp add: nth_enumerate_eq)
    with a that show ?thesis by (auto simp: min.commute)
  qed
  with l show ?thesis by simp
qed

lemma str_nat_digit: "n < 10 \<Longrightarrow> str_nat n = [digit_char n]"
  by (simp add: str_nat.simps)

lemma traverse_map: "traverse f (map h xs) = traverse (\<lambda>x. f (h x)) xs"
  by (induction xs) simp_all

lemma category_parts_take: "category_parts (c, take 15 rs) = category_parts (c, rs)"
  by (simp add: category_parts_def)

lemma render_result_strings:
  assumes "map_of result ''title'' = Some (PStr title)"
    and "map_of result ''url'' = Some (PStr url)"
    and "map_of result ''content'' = Some (PStr content)"
  shows "render_result i result
           = Inr (str_nat i @ ''. '' @ title @ nl
                  @ ''   URL: '' @ url @ nl
                  @ ''   Content: '' @ take 200 content @ ''...'' @ nl)"
  using assms by (simp add: render_result_def getitem_def slice_to_def py_str_def)

lemma length_join: "x \<in> set xs \<Longrightarrow> length x \<le> length (join sep xs)"
proof (induction sep xs rule: join.induct)
  case (1 sep)
  then show ?case by simp
next
  case (2 sep x)
  then show ?case by simp
next
  case (3 sep x y ys)
  then show ?case by auto
qed

lemma map_of_setitem: "map_of (setitem d k v) = (map_of d)(k \<mapsto> v)"
  by (induction d) (auto simp: fun_eq_iff)

lemma render_repo_name_length:
  assumes "render_repo i repo = Inr part" and "map_of repo ''full_name'' = Some (PStr name)"
  shows "length name \<le> length part"
  using assms
  by (auto simp: render_repo_def getitem_def and_then_def py_str_def split: sum.splits option.splits)


lemma render_repo_missing:
  assumes "k \<in> set repo_keys" and "map_of repo k = None"
  shows "\<exists>e. render_repo i repo = Inl e"
  using assms
  by (auto simp: repo_keys_def render_repo_def getitem_def and_then_def
           split: option.splits sum.splits)

lemma render_result_missing:
  assumes "k \<in> set result_keys" and "map_of result k = None"
  shows "\<exists>e. render_result i result = Inl e"
  using assms
  by (auto simp: result_keys_def render_result_def getitem_def and_then_def
           split: option.splits sum.splits)

lemma numbered_Inl:
  assumes "i < min n (length xs)" and "f (Suc i) (xs ! i) = Inl e"
  shows "\<exists>e'. traverse (\<lambda>(i, x). f i x) (enumerate 1 (take n xs)) = Inl e'"
proof -
  from assms(1) have "(Suc i, xs ! i) \<in> set (enumerate 1 (take n xs))"
    by (auto simp: in_set_enumerate_eq)
  moreover have "(\<lambda>(i, x). f i x) (Suc i, xs ! i) = Inl e"
    using assms(2) by simp
  ultimately show ?thesis
    by (rule traverse_Inl)
qed

lemma five_summary: "prepare_data_summary five_repos [] = Inr five_summary_text"
  by code_simp

lemma two_categories_summary: "prepare_data_summary [] two_categories = Inr two_categories_text"
  by code_simp

lemma described_summary:
  "prepare_data_summary [described d] []
     = Inr (''=== GITHUB REPOSITORIES ==='' @ nl @ nl
            @ ''1. org/r (0'' @ star @ '')'' @ nl
            @ ''   Description: '' @ d @ nl
            @ ''   Topics: '' @ nl
            @ ''   Language: None'' @ nl)"
  by (simp add: prepare_data_summary_def described_def render_repo_def getitem_def slice_to_def
        py_join_def py_str_def str_int_def str_nat_digit digit_char_def enumerate_eq_zip
        upt_rec)

text \<open>
  Claim C1 (as amended). The claim as stated fails: the description is rendered in
  full (a description of 300 characters comes out whole), and no fixed bound holds of
  the summary's length. What the builder bounds is the number of entries: the summary
  is a function of the first 30 repository records and of the first 15 results of each
  category, of a result's content only its first 200 characters are read and of a
  repository's topics only the first 5. The other field values are rendered whole, so
  the summary is at least as long as, for instance, the full name of any repository
  among the first 30.
\<close>

theorem summary_bounded_in_entries_only:
  "prepare_data_summary github_data web_data
     = prepare_data_summary (take 30 github_data) (map (\<lambda>(c, rs). (c, take 15 rs)) web_data)
   \<and> (map_of result ''content'' = Some (PStr content) \<longrightarrow>
        render_result i result
          = render_result i (setitem result ''content'' (PStr (take 200 content))))
   \<and> (map_of repo ''topics'' = Some (PList topics) \<longrightarrow>
        render_repo i repo = render_repo i (setitem repo ''topics'' (PList (take 5 topics))))
   \<and> (prepare_data_summary github_data web_data = Inr s
        \<and> n < min 30 (length github_data)
        \<and> map_of (github_data ! n) ''full_name'' = Some (PStr name) \<longrightarrow>
        length name \<le> length s)"
proof -
  have "(\<lambda>x. category_parts (case x of (c, rs) \<Rightarrow> (c, take 15 rs))) = category_parts"
    by (auto simp: category_parts_take)
  then have a: "prepare_data_summary github_data web_data
     = prepare_data_summary (take 30 github_data) (map (\<lambda>(c, rs). (c, take 15 rs)) web_data)"
    by (simp add: prepare_data_summary_def traverse_map)
  have b: "render_result i result
          = render_result i (setitem result ''content'' (PStr (take 200 content)))"
    if "map_of result ''content'' = Some (PStr content)"
    using that by (simp add: render_result_def getitem_def map_of_setitem slice_to_def)
  have c: "render_repo i repo = render_repo i (setitem repo ''topics'' (PList (take 5 topics)))"
    if "map_of repo ''topics'' = Some (PList topics)"
    using that by (simp add: render_repo_def getitem_def map_of_setitem slice_to_def)
  have d: "length name \<le> length s"
    if s: "prepare_data_summary github_data web_data = Inr s"
      and n: "n < min 30 (length github_data)"
      and m: "map_of (github_data ! n) ''full_name'' = Some (PStr name)"
  proof -
    from summary_parts [OF s] obtain repo_parts web_parts where
      r: "traverse (\<lambda>(i, repo). render_repo i repo) (enumerate 1 (take 30 github_data)) = Inr repo_parts"
      and j: "s = join nl ((''=== GITHUB REPOSITORIES ==='' @ nl) # repo_parts @ concat web_parts)"
      by blast
    from numbered_parts [OF r] n
    have l: "n < length repo_parts"
      and p: "render_repo (Suc n) (github_data ! n) = Inr (repo_parts ! n)"
      by simp_all
    from l have "repo_parts ! n \<in> set ((''=== GITHUB REPOSITORIES ==='' @ nl) # repo_parts @ concat web_parts)"
      by simp
    from length_join [OF this] j have "length (repo_parts ! n) \<le> length s"
      by simp
    with render_repo_name_length [OF p m] show ?thesis
      by simp
  qed
  from a b c d show ?thesis by blast
qed

theorem summary_bounded_in_entries_only_witness:
  "prepare_data_summary (replicate 31 (scenario_repo ''r'' 7))
       [(''general'', replicate 16 (scenario_result ''t'' ''c''))]
     = prepare_data_summary (replicate 30 (scenario_repo ''r'' 7))
         [(''general'', replicate 15 (scenario_result ''t'' ''c''))]
   \<and> render_result 1 (scenario_result ''long'' (replicate 250 CHR ''x''))
       = render_result 1
           (setitem (scenario_result ''long'' (replicate 250 CHR ''x'')) ''content''
              (PStr (replicate 200 CHR ''x'')))
   \<and> render_repo 1 many_topics
       = render_repo 1
           (setitem many_topics ''topics''
              (PList [PStr ''a'', PStr ''b'', PStr ''c'', PStr ''d'', PStr ''e'']))
   \<and> length ''org/d'' \<le> length five_summary_text"
proof -
  note t = summary_bounded_in_entries_only
  have a: "prepare_data_summary (replicate 31 (scenario_repo ''r'' 7))
       [(''general'', replicate 16 (scenario_result ''t'' ''c''))]
     = prepare_data_summary (replicate 30 (scenario_repo ''r'' 7))
         [(''general'', replicate 15 (scenario_result ''t'' ''c''))]"
    using t [of "replicate 31 (scenario_repo ''r'' 7)"
                "[(''general'', replicate 16 (scenario_result ''t'' ''c''))]"]
    by simp
  have b: "render_result 1 (scenario_result ''long'' (replicate 250 CHR ''x''))
       = render_result 1
           (setitem (scenario_result ''long'' (replicate 250 CHR ''x'')) ''content''
              (PStr (replicate 200 CHR ''x'')))"
    using t [of "[]" "[]" "scenario_result ''long'' (replicate 250 CHR ''x'')"
                "replicate 250 CHR ''x''" 1]
    by (simp add: scenario_result_def)
  have c: "render_repo 1 many_topics
       = render_repo 1
           (setitem many_topics ''topics''
              (PList [PStr ''a'', PStr ''b'', PStr ''c'', PStr ''d'', PStr ''e'']))"
    using t [of "[]" "[]" _ _ 1 many_topics
                "[PStr ''a'', PStr ''b'', PStr ''c'', PStr ''d'', PStr ''e'', PStr ''f'']"]
    by (simp add: many_topics_def)
  have "map_of (five_repos ! 3) ''full_name'' = Some (PStr ''org/d'')"
    by (simp add: five_repos_def scenario_repo_def)
  moreover have "(3::nat) < min 30 (length five_repos)"
    by (simp add: five_repos_def)
  ultimately have d: "length ''org/d'' \<le> length five_summary_text"
    using t [of five_repos "[]" _ _ _ _ _ five_summary_text 3 "''org/d''"] five_summary
    by blast
  from a b c d show ?thesis by blast
qed

theorem summary_length_unbounded:
  "prepare_data_summary [described (replicate 300 CHR ''x'')] []
     = Inr (''=== GITHUB REPOSITORIES ==='' @ nl @ nl
            @ ''1. org/r (0'' @ star @ '')'' @ nl
            @ ''   Description: '' @ replicate 300 CHR ''x'' @ nl
            @ ''   Topics: '' @ nl
            @ ''   Language: None'' @ nl)
   \<and> \<not> (\<exists>B. \<forall>g w s. prepare_data_summary g w = Inr s \<longrightarrow> length s \<le> B)"
proof -
  have "\<not> (\<exists>B. \<forall>g w s. prepare_data_summary g w = Inr s \<longrightarrow> length s \<le> B)"
  proof
    assume "\<exists>B. \<forall>g w s. prepare_data_summary g w = Inr s \<longrightarrow> length s \<le> B"
    then obtain B where
      b: "\<And>g w s. prepare_data_summary g w = Inr s \<Longrightarrow> length s \<le> B"
      by blast
    from b [OF described_summary [of "replicate (Suc B) CHR ''x''"]] show False
      by simp
  qed
  with described_summary [of "replicate 300 CHR ''x''"] show ?thesis
    by blast
qed

text \<open>
  Claim C6. The summary is the same as that of the first 30 records alone, so no record
  beyond the 30th reaches it; and when it is built, the parts that follow the header
  are the renderings of the records 1 to \<open>min 30 (length github_data)\<close> (30 for an input
  longer than 30), each under its number, in the order of the input: nothing is sorted.
  The witness takes 31 records, and scenario 1 of the specification, whose five records
  with 100, 200, 50, 400 and 10 stars come out in that order.
\<close>

theorem first_30_repositories_in_order:
  "prepare_data_summary github_data web_data
     = prepare_data_summary (take 30 github_data) web_data
   \<and> (\<forall>s. prepare_data_summary github_data web_data = Inr s \<longrightarrow>
        (\<exists>repo_parts web_parts.
            s = join nl ((''=== GITHUB REPOSITORIES ==='' @ nl) # repo_parts @ concat web_parts)
          \<and> length repo_parts = min 30 (length github_data)
          \<and> (\<forall>i<min 30 (length github_data).
                render_repo (Suc i) (github_data ! i) = Inr (repo_parts ! i))
          \<and> traverse category_parts web_data = Inr web_parts))"
proof -
  have "prepare_data_summary github_data web_data
          = prepare_data_summary (take 30 github_data) web_data"
    by (simp add: prepare_data_summary_def)
  moreover have "\<exists>repo_parts web_parts.
            s = join nl ((''=== GITHUB REPOSITORIES ==='' @ nl) # repo_parts @ concat web_parts)
          \<and> length repo_parts = min 30 (length github_data)
          \<and> (\<forall>i<min 30 (length github_data).
                render_repo (Suc i) (github_data ! i) = Inr (repo_parts ! i))
          \<and> traverse category_parts web_data = Inr web_parts"
    if "prepare_data_summary github_data web_data = Inr s" for s
  proof -
    from summary_parts [OF that] obtain repo_parts web_parts where
      r: "traverse (\<lambda>(i, repo). render_repo i repo) (enumerate 1 (take 30 github_data)) = Inr repo_parts"
      and w: "traverse category_parts web_data = Inr web_parts"
      and s: "s = join nl ((''=== GITHUB REPOSITORIES ==='' @ nl) # repo_parts @ concat web_parts)"
      by blast
    from numbered_parts [OF r] s w show ?thesis by blast
  qed
  ultimately show ?thesis by blast
qed

theorem first_30_repositories_in_order_witness:
  "prepare_data_summary (replicate 31 (scenario_repo ''r'' 7)) []
     = prepare_data_summary (replicate 30 (scenario_repo ''r'' 7)) []
   \<and> (\<exists>repo_parts web_parts.
          five_summary_text
            = join nl ((''=== GITHUB REPOSITORIES ==='' @ nl) # repo_parts @ concat web_parts)
        \<and> length repo_parts = 5
        \<and> (\<forall>i<5. render_repo (Suc i) (five_repos ! i) = Inr (repo_parts ! i))
        \<and> traverse category_parts [] = Inr web_parts)"
proof -
  have a: "prepare_data_summary (replicate 31 (scenario_repo ''r'' 7)) []
     = prepare_data_summary (replicate 30 (scenario_repo ''r'' 7)) []"
    using first_30_repositories_in_order [of "replicate 31 (scenario_repo ''r'' 7)" "[]"]
    by simp
  have l: "min 30 (length five_repos) = 5"
    by (simp add: five_repos_def)
  from first_30_repositories_in_order [of five_repos "[]"] five_summary
  have "\<exists>repo_parts web_parts.
          five_summary_text
            = join nl ((''=== GITHUB REPOSITORIES ==='' @ nl) # repo_parts @ concat web_parts)
        \<and> length repo_parts = min 30 (length five_repos)
        \<and> (\<forall>i<min 30 (length five_repos). render_repo (Suc i) (five_repos ! i) = Inr (repo_parts ! i))
        \<and> traverse category_parts [] = Inr web_parts"
    by blast
  with a show ?thesis
    unfolding l by blast
qed

text \<open>
  Claim C7. The summary is the same as that of the first 15 results of every category,
  so no result beyond the 15th of its category reaches it; when it is built, the
  categories' parts follow the repositories' in the order of the result set, each the
  header of the category and then the renderings of its results 1 to
  \<open>min 15 (length results)\<close>, each under its number; and a result whose title, url and
  content are strings is rendered as its title, its url, and the first 200 characters of
  its content followed by three dots.
\<close>

theorem first_15_results_of_each_category:
  "prepare_data_summary github_data web_data
     = prepare_data_summary github_data (map (\<lambda>(c, rs). (c, take 15 rs)) web_data)
   \<and> (\<forall>s. prepare_data_summary github_data web_data = Inr s \<longrightarrow>
        (\<exists>repo_parts web_parts.
            s = join nl ((''=== GITHUB REPOSITORIES ==='' @ nl) # repo_parts @ concat web_parts)
          \<and> length web_parts = length web_data
          \<and> (\<forall>j<length web_data. \<exists>parts.
                web_parts ! j = category_header (fst (web_data ! j)) # parts
              \<and> length parts = min 15 (length (snd (web_data ! j)))
              \<and> (\<forall>i<min 15 (length (snd (web_data ! j))).
                    render_result (Suc i) (snd (web_data ! j) ! i) = Inr (parts ! i)))))
   \<and> (\<forall>i result title url content.
          map_of result ''title'' = Some (PStr title)
        \<and> map_of result ''url'' = Some (PStr url)
        \<and> map_of result ''content'' = Some (PStr content) \<longrightarrow>
          render_result i result
            = Inr (str_nat i @ ''. '' @ title @ nl
                   @ ''   URL: '' @ url @ nl
                   @ ''   Content: '' @ take 200 content @ ''...'' @ nl))"
proof -
  have "(\<lambda>x. category_parts (case x of (c, rs) \<Rightarrow> (c, take 15 rs))) = category_parts"
    by (auto simp: category_parts_take)
  then have a: "prepare_data_summary github_data web_data
     = prepare_data_summary github_data (map (\<lambda>(c, rs). (c, take 15 rs)) web_data)"
    by (simp add: prepare_data_summary_def traverse_map)
  have b: "\<exists>repo_parts web_parts.
            s = join nl ((''=== GITHUB REPOSITORIES ==='' @ nl) # repo_parts @ concat web_parts)
          \<and> length web_parts = length web_data
          \<and> (\<forall>j<length web_data. \<exists>parts.
                web_parts ! j = category_header (fst (web_data ! j)) # parts
              \<and> length parts = min 15 (length (snd (web_data ! j)))
              \<and> (\<forall>i<min 15 (length (snd (web_data ! j))).
                    render_result (Suc i) (snd (web_data ! j) ! i) = Inr (parts ! i)))"
    if "prepare_data_summary github_data web_data = Inr s" for s
  proof -
    from summary_parts [OF that] obtain repo_parts web_parts where
      w: "traverse category_parts web_data = Inr web_parts"
      and s: "s = join nl ((''=== GITHUB REPOSITORIES ==='' @ nl) # repo_parts @ concat web_parts)"
      by blast
    from traverse_nth [OF w] have l: "length web_parts = length web_data"
      and n: "\<forall>j<length web_data. category_parts (web_data ! j) = Inr (web_parts ! j)"
      by simp_all
    have "\<exists>parts.
                web_parts ! j = category_header (fst (web_data ! j)) # parts
              \<and> length parts = min 15 (length (snd (web_data ! j)))
              \<and> (\<forall>i<min 15 (length (snd (web_data ! j))).
                    render_result (Suc i) (snd (web_data ! j) ! i) = Inr (parts ! i))"
      if "j < length web_data" for j
    proof -
      from n that have "category_parts (fst (web_data ! j), snd (web_data ! j)) = Inr (web_parts ! j)"
        by simp
      from category_parts_parts [OF this] obtain parts where
        p: "traverse (\<lambda>(i, result). render_result i result)
              (enumerate 1 (take 15 (snd (web_data ! j)))) = Inr parts"
        and h: "web_parts ! j = category_header (fst (web_data ! j)) # parts"
        by blast
      from numbered_parts [OF p] h show ?thesis by blast
    qed
    with s l show ?thesis by blast
  qed
  from a b render_result_strings show ?thesis by blast
qed


theorem first_15_results_of_each_category_witness:
  "prepare_data_summary [] [(''general'', replicate 16 (scenario_result ''t'' ''c''))]
     = prepare_data_summary [] [(''general'', replicate 15 (scenario_result ''t'' ''c''))]
   \<and> (\<exists>repo_parts web_parts.
          two_categories_text
            = join nl ((''=== GITHUB REPOSITORIES ==='' @ nl) # repo_parts @ concat web_parts)
        \<and> length web_parts = length two_categories
        \<and> (\<forall>j<length two_categories. \<exists>parts.
              web_parts ! j = category_header (fst (two_categories ! j)) # parts
            \<and> length parts = min 15 (length (snd (two_categories ! j)))
            \<and> (\<forall>i<min 15 (length (snd (two_categories ! j))).
                  render_result (Suc i) (snd (two_categories ! j) ! i) = Inr (parts ! i))))
   \<and> render_result 1 (scenario_result ''long'' (replicate 250 CHR ''x''))
       = Inr (''1. long'' @ nl
              @ ''   URL: https://example.com/long'' @ nl
              @ ''   Content: '' @ replicate 200 CHR ''x'' @ ''...'' @ nl)"
proof -
  note t = first_15_results_of_each_category
  have a: "prepare_data_summary [] [(''general'', replicate 16 (scenario_result ''t'' ''c''))]
     = prepare_data_summary [] [(''general'', replicate 15 (scenario_result ''t'' ''c''))]"
    using t [of "[]" "[(''general'', replicate 16 (scenario_result ''t'' ''c''))]"]
    by simp
  have b: "\<exists>repo_parts web_parts.
          two_categories_text
            = join nl ((''=== GITHUB REPOSITORIES ==='' @ nl) # repo_parts @ concat web_parts)
        \<and> length web_parts = length two_categories
        \<and> (\<forall>j<length two_categories. \<exists>parts.
              web_parts ! j = category_header (fst (two_categories ! j)) # parts
            \<and> length parts = min 15 (length (snd (two_categories ! j)))
            \<and> (\<forall>i<min 15 (length (snd (two_categories ! j))).
                  render_result (Suc i) (snd (two_categories ! j) ! i) = Inr (parts ! i)))"
    using t [of "[]" two_categories] two_categories_summary by blast
  have "render_result 1 (scenario_result ''long'' (replicate 250 CHR ''x''))
       = Inr (str_nat 1 @ ''. '' @ ''long'' @ nl
              @ ''   URL: '' @ ''https://example.com/long'' @ nl
              @ ''   Content: '' @ take 200 (replicate 250 CHR ''x'') @ ''...'' @ nl)"
    using t [of "[]" "[]"] by (simp add: scenario_result_def)
  then have c: "render_result 1 (scenario_result ''long'' (replicate 250 CHR ''x''))
       = Inr (''1. long'' @ nl
              @ ''   URL: https://example.com/long'' @ nl
              @ ''   Content: '' @ replicate 200 CHR ''x'' @ ''...'' @ nl)"
    by (simp add: str_nat_digit digit_char_def)
  from a b c show ?thesis by blast
qed

subsection \<open>Exceptions of the summary builder\<close>

text \<open>
  Claim C10. \<^verbatim>\<open>create_taxonomy\<close> builds the summary before its \<^verbatim>\<open>try\<close>: an
  exception of the summary builder reaches the caller as it is, whatever the client and
  the parser would do, and the builder does raise when one of the first 30 repository
  records or one of the first 15 results of a category lacks a key the f-strings read.
  The witness: a record without \<^verbatim>\<open>full_name\<close> gives \<^verbatim>\<open>KeyError('full_name')\<close>
  although the client would answer with a valid taxonomy, and so does a web result
  without \<^verbatim>\<open>content\<close>.
\<close>

theorem missing_key_raises_to_caller:
  "(prepare_data_summary github_data web_data = Inl e \<longrightarrow>
      create_taxonomy E self keyword github_data web_data = Inl e)
   \<and> ((\<exists>i<min 30 (length github_data). \<exists>k\<in>set repo_keys. map_of (github_data ! i) k = None)
        \<or> (\<exists>j<length web_data. \<exists>i<min 15 (length (snd (web_data ! j))). \<exists>k\<in>set result_keys.
              map_of (snd (web_data ! j) ! i) k = None) \<longrightarrow>
      (\<exists>e'. prepare_data_summary github_data web_data = Inl e'
           \<and> create_taxonomy E self keyword github_data web_data = Inl e'))"
proof -
  have a: "create_taxonomy E self keyword github_data web_data = Inl x"
    if "prepare_data_summary github_data web_data = Inl x" for x
    using that by (simp add: create_taxonomy_def)
  have b: "\<exists>e'. prepare_data_summary github_data web_data = Inl e'"
    if "i < min 30 (length github_data)" and "k \<in> set repo_keys"
      and "map_of (github_data ! i) k = None" for i k
  proof -
    from render_repo_missing [OF that(2,3)] obtain x where
      "render_repo (Suc i) (github_data ! i) = Inl x" by blast
    from numbered_Inl [of i 30 github_data render_repo x, OF that(1) this] show ?thesis
      by (auto simp: prepare_data_summary_def)
  qed
  have c: "\<exists>e'. prepare_data_summary github_data web_data = Inl e'"
    if j: "j < length web_data" and i: "i < min 15 (length (snd (web_data ! j)))"
      and k: "k \<in> set result_keys" and m: "map_of (snd (web_data ! j) ! i) k = None" for i j k
  proof -
    from render_result_missing [OF k m] obtain x where
      "render_result (Suc i) (snd (web_data ! j) ! i) = Inl x" by blast
    from numbered_Inl [of i 15 "snd (web_data ! j)" render_result x, OF i this] obtain y where
      cp: "category_parts (web_data ! j) = Inl y"
      by (auto simp: category_parts_def)
    from j have mem: "web_data ! j \<in> set web_data" by simp
    from traverse_Inl [of "web_data ! j" web_data category_parts y, OF mem cp] obtain z where "traverse category_parts web_data = Inl z"
      by blast
    then show ?thesis
      by (cases "traverse (\<lambda>(i, repo). render_repo i repo) (enumerate 1 (take 30 github_data))")
         (simp_all add: prepare_data_summary_def)
  qed
  from a b c show ?thesis by blast
qed

theorem missing_key_raises_to_caller_witness:
  "create_taxonomy (py_env (answers one_category_text)) test_analyzer ''agentic AI''
       [[(''stars'', PInt 5)]] []
     = Inl (Exn KeyError (quoted ''full_name''))
   \<and> (\<exists>e'. prepare_data_summary [] [(''general'', [[(''title'', PStr ''t''), (''url'', PStr ''u'')]])] = Inl e'
          \<and> create_taxonomy (py_env (answers one_category_text)) test_analyzer ''agentic AI''
               [] [(''general'', [[(''title'', PStr ''t''), (''url'', PStr ''u'')]])] = Inl e')"
proof -
  note t = missing_key_raises_to_caller
  have "prepare_data_summary [[(''stars'', PInt 5)]] [] = Inl (Exn KeyError (quoted ''full_name''))"
    by code_simp
  with t [of "[[(''stars'', PInt 5)]]" "[]" "Exn KeyError (quoted ''full_name'')"]
  have a: "create_taxonomy (py_env (answers one_category_text)) test_analyzer ''agentic AI''
       [[(''stars'', PInt 5)]] [] = Inl (Exn KeyError (quoted ''full_name''))"
    by blast
  have "\<exists>j<length [(''general'', [[(''title'', PStr ''t''), (''url'', PStr ''u'')]])].
          \<exists>i<min 15 (length (snd ([(''general'', [[(''title'', PStr ''t''), (''url'', PStr ''u'')]])] ! j))).
          \<exists>k\<in>set result_keys.
            map_of (snd ([(''general'', [[(''title'', PStr ''t''), (''url'', PStr ''u'')]])] ! j) ! i) k = None"
    by (simp add: result_keys_def)
  with t [of "[]" "[(''general'', [[(''title'', PStr ''t''), (''url'', PStr ''u'')]])]"]
  have b: "\<exists>e'. prepare_data_summary [] [(''general'', [[(''title'', PStr ''t''), (''url'', PStr ''u'')]])] = Inl e'
          \<and> create_taxonomy (py_env (answers one_category_text)) test_analyzer ''agentic AI''
               [] [(''general'', [[(''title'', PStr ''t''), (''url'', PStr ''u'')]])] = Inl e'"
    by blast
  from a b show ?thesis by blast
qed

end
